theory Spec2Isabelle
  imports
    Complex_Main
    "HOL-Library.Char_ord"
    "HOL-Library.List_Lexorder"
    "HOL-Library.Product_Lexorder"
begin

section \<open>Texts\<close>

text \<open>
  A JavaScript string is a sequence of UTF-16 code units, a PostgreSQL \<open>TEXT\<close> a sequence
  of characters. Both are modelled by \<^typ>\<open>string\<close>, one \<^typ>\<open>char\<close> per code unit, which
  covers the code units \<open>0x00\<close> to \<open>0xFF\<close> (Latin-1): every letter of the Spanish keyword
  tables of the program is one such unit (e with acute accent is \<open>CHR 0xE9\<close>, a with acute accent is
  \<open>CHR 0xE1\<close>, o with acute accent is \<open>CHR 0xF3\<close>). Texts with code units above \<open>0xFF\<close> are outside the model.
\<close>

definition toLowerCaseChar :: "char \<Rightarrow> char" where
  \<comment> \<open>Unicode lower-casing restricted to Latin-1: \<open>A\<close>-\<open>Z\<close> and \<open>0xC0\<close>-\<open>0xDE\<close> but \<open>0xD7\<close>.\<close>
  "toLowerCaseChar c =
     (let n = (of_char c :: nat) in
      if (65 \<le> n \<and> n \<le> 90) \<or> (192 \<le> n \<and> n \<le> 222 \<and> n \<noteq> 215)
      then char_of (n + 32) else c)"

definition toLowerCase :: "string \<Rightarrow> string" where
  \<comment> \<open>\<open>String.prototype.toLowerCase\<close>\<close>
  "toLowerCase s = map toLowerCaseChar s"

definition sql_lower :: "string \<Rightarrow> string" where
  \<comment> \<open>\<open>LOWER(text)\<close> of PostgreSQL, in a database whose locale lower-cases Latin-1 letters.\<close>
  "sql_lower s = map toLowerCaseChar s"

fun startsWith :: "string \<Rightarrow> string \<Rightarrow> bool" where
  \<comment> \<open>\<open>s.startsWith(k)\<close>\<close>
  "startsWith s [] = True"
| "startsWith [] (k # ks) = False"
| "startsWith (c # cs) (k # ks) = (c = k \<and> startsWith cs ks)"

fun js_includes :: "string \<Rightarrow> string \<Rightarrow> bool" where
  \<comment> \<open>\<open>s.includes(k)\<close>: \<open>k\<close> occurs in \<open>s\<close> at some position.\<close>
  "js_includes [] k = (k = [])"
| "js_includes (c # cs) k = (startsWith (c # cs) k \<or> js_includes cs k)"

fun like :: "string \<Rightarrow> string \<Rightarrow> bool" where
  \<comment> \<open>\<open>s LIKE p\<close> of PostgreSQL: \<open>%\<close> is any sequence, \<open>_\<close> any one character, a
      backslash takes the next character literally. PostgreSQL raises on a pattern that
      ends in a lone backslash; no pattern of this program does, each ends in the \<open>%\<close>
      it appends, so that case is \<open>False\<close> here.\<close>
  "like s [] = (s = [])"
| "like s (p # ps) =
    (if p = CHR ''%'' then
       (like s ps \<or> (case s of [] \<Rightarrow> False | c # cs \<Rightarrow> like cs (p # ps)))
     else if p = CHR ''_'' then
       (case s of [] \<Rightarrow> False | c # cs \<Rightarrow> like cs ps)
     else if p = CHR 0x5C then
       (case ps of [] \<Rightarrow> False
        | q # qs \<Rightarrow> (case s of [] \<Rightarrow> False | c # cs \<Rightarrow> c = q \<and> like cs qs))
     else (case s of [] \<Rightarrow> False | c # cs \<Rightarrow> c = p \<and> like cs ps))"

definition literal :: "string \<Rightarrow> bool" where
  \<comment> \<open>No character of \<open>k\<close> is special in a \<open>LIKE\<close> pattern.\<close>
  "literal k = list_all (\<lambda>c. c \<noteq> CHR ''%'' \<and> c \<noteq> CHR ''_'' \<and> c \<noteq> CHR 0x5C) k"


section \<open>Sentiment: the SQL function \<open>analizar_sentimiento_basico\<close>\<close>

datatype sentimiento = muy_negativo | negativo | positivo | neutral

record analisis_sentimiento =
  sentimiento :: sentimiento
  score :: rat

definition palabras_negativas :: "string list" where
  "palabras_negativas =
     [''malo'', ''terrible'', ''horrible'', ''asqueroso'', ''p'' @ [CHR 0xE9] @ ''simo'',
      ''nunca'', ''jam'' @ [CHR 0xE1] @ ''s'', ''odio'']"

definition palabras_positivas :: "string list" where
  "palabras_positivas =
     [''bueno'', ''excelente'', ''rico'', ''sabroso'', ''recomiendo'', ''perfecto'',
      ''genial'']"

fun contar_palabras :: "string \<Rightarrow> string list \<Rightarrow> nat \<Rightarrow> nat" where
  \<comment> \<open>\<open>FOREACH palabra IN ARRAY ... LOOP IF texto_lower LIKE '%' || palabra || '%'
      THEN score := score + 1\<close>\<close>
  "contar_palabras texto_lower [] n = n"
| "contar_palabras texto_lower (palabra # resto) n =
     contar_palabras texto_lower resto
       (if like texto_lower (''%'' @ palabra @ ''%'') then n + 1 else n)"

definition analizar_sentimiento_basico :: "string \<Rightarrow> analisis_sentimiento" where
  "analizar_sentimiento_basico texto =
     (let texto_lower = sql_lower texto;
          score_neg = contar_palabras texto_lower palabras_negativas 0;
          score_pos = contar_palabras texto_lower palabras_positivas 0
      in if score_neg > score_pos + 1 then \<lparr>sentimiento = muy_negativo, score = - 0.8\<rparr>
         else if score_neg > score_pos then \<lparr>sentimiento = negativo, score = - 0.4\<rparr>
         else if score_pos > score_neg then \<lparr>sentimiento = positivo, score = 0.6\<rparr>
         else \<lparr>sentimiento = neutral, score = 0.0\<rparr>)"

text \<open>The counts as the specification words them: the keywords of a table that occur in
  the lower-cased text, as a set.\<close>

definition negCount :: "string \<Rightarrow> nat" where
  "negCount texto = card {k \<in> set palabras_negativas. js_includes (toLowerCase texto) k}"

definition posCount :: "string \<Rightarrow> nat" where
  "posCount texto = card {k \<in> set palabras_positivas. js_includes (toLowerCase texto) k}"


section \<open>Branch resolution: the SQL function \<open>buscar_sucursales_inteligente\<close>\<close>

function digitos :: "nat \<Rightarrow> string" where
  \<comment> \<open>the decimal digits of a natural number\<close>
  "digitos n = (if n < 10 then [char_of (48 + n)]
                else digitos (n div 10) @ [char_of (48 + n mod 10)])"
  by pat_completeness auto
termination
  by (relation "measure id") auto

definition texto_de_entero :: "int \<Rightarrow> string" where
  \<comment> \<open>\<open>k::TEXT\<close> for an \<open>INTEGER\<close>\<close>
  "texto_de_entero k = (if k < 0 then ''-'' @ digitos (nat (- k)) else digitos (nat k))"

record sucursal_fila =
  \<comment> \<open>a row of \<open>sucursales s JOIN municipios m ON ... JOIN estados e ON ...\<close>; of
      its columns only \<open>external_key\<close> and \<open>activa\<close> may be \<open>NULL\<close>\<close>
  s_id :: int
  s_external_key :: "int option"
  s_nombre :: string
  s_activa :: "bool option"
  m_nombre :: string
  e_nombre :: string
  e_codigo :: string

text \<open>The six conditions of the \<open>CASE\<close>, in its order. A comparison with \<open>NULL\<close> is not
  true, in a \<open>WHEN\<close> as in the \<open>WHERE\<close>.\<close>

definition id_exacto :: "sucursal_fila \<Rightarrow> string \<Rightarrow> bool" where
  \<comment> \<open>\<open>s.external_key::TEXT = busqueda\<close>\<close>
  "id_exacto s busqueda =
     (case s_external_key s of None \<Rightarrow> False | Some k \<Rightarrow> texto_de_entero k = busqueda)"

definition nombre_exacto :: "sucursal_fila \<Rightarrow> string \<Rightarrow> bool" where
  \<comment> \<open>\<open>LOWER(s.nombre) = LOWER(busqueda)\<close>\<close>
  "nombre_exacto s busqueda = (sql_lower (s_nombre s) = sql_lower busqueda)"

definition ciudad_exacta :: "sucursal_fila \<Rightarrow> string \<Rightarrow> bool" where
  \<comment> \<open>\<open>LOWER(m.nombre) = LOWER(busqueda)\<close>\<close>
  "ciudad_exacta s busqueda = (sql_lower (m_nombre s) = sql_lower busqueda)"

definition nombre_parcial :: "sucursal_fila \<Rightarrow> string \<Rightarrow> bool" where
  \<comment> \<open>\<open>LOWER(s.nombre) LIKE LOWER('%' || busqueda || '%')\<close>\<close>
  "nombre_parcial s busqueda =
     like (sql_lower (s_nombre s)) (sql_lower (''%'' @ busqueda @ ''%''))"

definition ciudad_parcial :: "sucursal_fila \<Rightarrow> string \<Rightarrow> bool" where
  \<comment> \<open>\<open>LOWER(m.nombre) LIKE LOWER('%' || busqueda || '%')\<close>\<close>
  "ciudad_parcial s busqueda =
     like (sql_lower (m_nombre s)) (sql_lower (''%'' @ busqueda @ ''%''))"

definition estado_exacto :: "sucursal_fila \<Rightarrow> string \<Rightarrow> bool" where
  \<comment> \<open>\<open>LOWER(e.codigo) = LOWER(busqueda)\<close>\<close>
  "estado_exacto s busqueda = (sql_lower (e_codigo s) = sql_lower busqueda)"

definition confianza_de :: "sucursal_fila \<Rightarrow> string \<Rightarrow> rat" where
  \<comment> \<open>the first \<open>CASE\<close>\<close>
  "confianza_de s busqueda =
     (if id_exacto s busqueda then 1.00
      else if nombre_exacto s busqueda then 0.95
      else if ciudad_exacta s busqueda then 0.85
      else if nombre_parcial s busqueda then 0.75
      else if ciudad_parcial s busqueda then 0.65
      else if estado_exacto s busqueda then 0.60
      else 0.30)"

definition razon_de :: "sucursal_fila \<Rightarrow> string \<Rightarrow> string" where
  \<comment> \<open>the second \<open>CASE\<close>\<close>
  "razon_de s busqueda =
     (if id_exacto s busqueda then ''ID exacto''
      else if nombre_exacto s busqueda then ''Nombre exacto''
      else if ciudad_exacta s busqueda then ''Ciudad exacta''
      else if nombre_parcial s busqueda then ''Nombre parcial''
      else if ciudad_parcial s busqueda then ''Ciudad parcial''
      else if estado_exacto s busqueda then ''Estado''
      else ''Coincidencia baja'')"

definition filtro :: "sucursal_fila \<Rightarrow> string \<Rightarrow> bool" where
  \<comment> \<open>the \<open>WHERE\<close> clause\<close>
  "filtro s busqueda =
     (s_activa s = Some True \<and>
      (id_exacto s busqueda \<or> nombre_parcial s busqueda \<or> ciudad_parcial s busqueda \<or>
       estado_exacto s busqueda))"

record candidata =
  sucursal_id :: int
  nombre :: string
  municipio :: string
  estado :: string
  confianza :: rat
  razon :: string

definition fila_resultado :: "string \<Rightarrow> sucursal_fila \<Rightarrow> candidata" where
  \<comment> \<open>the \<open>SELECT\<close> list\<close>
  "fila_resultado busqueda s =
     \<lparr>sucursal_id = s_id s, nombre = s_nombre s, municipio = m_nombre s, estado = e_nombre s,
      confianza = confianza_de s busqueda, razon = razon_de s busqueda\<rparr>"

definition consulta_sucursales ::
  "sucursal_fila list \<Rightarrow> string \<Rightarrow> nat \<Rightarrow> candidata list" where
  \<comment> \<open>the rows of the \<open>SELECT\<close> of the function, with its
      \<open>ORDER BY confianza DESC, s.nombre LIMIT limite\<close>; names compare by code unit\<close>
  "consulta_sucursales tabla busqueda limite =
     take limite
       (sort_key (\<lambda>r. (- confianza r, nombre r))
          (map (fila_resultado busqueda) (filter (\<lambda>s. filtro s busqueda) tabla)))"

text \<open>
  \<open>RETURN QUERY\<close> hands the rows of the \<open>SELECT\<close> over as the result of the function, and
  first compares the type of each column of the \<open>SELECT\<close> with the type that
  \<open>RETURNS TABLE\<close> declares for it, by the type and not by its length or precision; on a
  difference it raises \<open>structure of query does not match function result type\<close>. The
  function declares \<open>nombre\<close>, \<open>municipio\<close> and \<open>estado\<close> as \<open>TEXT\<close> and \<open>razon\<close> as
  \<open>VARCHAR(100)\<close>; the \<open>SELECT\<close> yields \<open>s.nombre\<close>, a \<open>VARCHAR(200)\<close>, \<open>m.nombre\<close> and
  \<open>e.nombre\<close>, both \<open>VARCHAR(100)\<close>, and for \<open>razon\<close> a \<open>CASE\<close> of string literals,
  which is a \<open>text\<close>, all without a cast.
\<close>

datatype tipo_sql = T_integer | T_text | T_varchar | T_numeric

datatype sql_error = ErrorEstructura
  \<comment> \<open>\<open>structure of query does not match function result type\<close>\<close>

definition columnas_declaradas :: "tipo_sql list" where
  \<comment> \<open>\<open>RETURNS TABLE(sucursal_id INTEGER, nombre TEXT, municipio TEXT, estado TEXT,
      confianza DECIMAL(3,2), razon VARCHAR(100))\<close>\<close>
  "columnas_declaradas = [T_integer, T_text, T_text, T_text, T_numeric, T_varchar]"

definition columnas_consulta :: "tipo_sql list" where
  \<comment> \<open>\<open>SELECT s.id, s.nombre, m.nombre, e.nombre, CASE ... END, CASE ... END\<close>\<close>
  "columnas_consulta = [T_integer, T_varchar, T_varchar, T_varchar, T_numeric, T_text]"

definition buscar_sucursales_inteligente ::
  "sucursal_fila list \<Rightarrow> string \<Rightarrow> nat \<Rightarrow> sql_error + candidata list" where
  \<comment> \<open>\<open>SELECT * FROM buscar_sucursales_inteligente(busqueda, limite)\<close>\<close>
  "buscar_sucursales_inteligente tabla busqueda limite =
     (if columnas_consulta = columnas_declaradas
      then Inr (consulta_sucursales tabla busqueda limite)
      else Inl ErrorEstructura)"

definition filas_devueltas :: "sql_error + candidata list \<Rightarrow> candidata list" where
  \<comment> \<open>the candidates that a call returns: none when it raises\<close>
  "filas_devueltas r = (case r of Inl e \<Rightarrow> [] | Inr filas \<Rightarrow> filas)"

definition sucursales_semilla :: "sucursal_fila list" where
  \<comment> \<open>four of the branches of the seeding script, joined with their municipality and state\<close>
  "sucursales_semilla =
     [\<lparr>s_id = 1, s_external_key = Some 1, s_nombre = ''1 - Pino Suarez'', s_activa = Some True,
       m_nombre = ''Monterrey'', e_nombre = ''Nuevo Le'' @ [CHR 0xF3] @ ''n'', e_codigo = ''NL''\<rparr>,
      \<lparr>s_id = 2, s_external_key = Some 10, s_nombre = ''10 - Barragan'', s_activa = Some True,
       m_nombre = ''San Nicolas de los Garza'', e_nombre = ''Nuevo Le'' @ [CHR 0xF3] @ ''n'',
       e_codigo = ''NL''\<rparr>,
      \<lparr>s_id = 3, s_external_key = Some 65, s_nombre = ''65 - Pedro Cardenas'',
       s_activa = Some True, m_nombre = ''Matamoros'', e_nombre = ''Tamaulipas'',
       e_codigo = ''TM''\<rparr>,
      \<lparr>s_id = 9, s_external_key = Some 23, s_nombre = ''23 - Guasave'', s_activa = Some True,
       m_nombre = ''Guasave'', e_nombre = ''Sinaloa'', e_codigo = ''SI''\<rparr>]"


section \<open>The category cache and the categorizer\<close>

text \<open>
  A JavaScript object is open: a property that no code writes reads as \<open>undefined\<close>. The
  records below list every property that the program reads or writes; one that is read
  somewhere but may be absent is an \<open>option\<close>, \<open>None\<close> for \<open>undefined\<close> or \<open>null\<close>.
  Record fields carry a prefix, since Isabelle wants them distinct across records.
  Keyword arrays (\<open>TEXT[]\<close>) hold strings, as the seeding script inserts them.
\<close>

record fila_categoria =
  \<comment> \<open>a row of \<open>SELECT c.id, c.nombre, sc.nombre as subcategoria, sc.keywords FROM
      categorias_quejas c LEFT JOIN subcategorias_quejas sc ...\<close>\<close>
  f_id :: int
  f_nombre :: string
  f_subcategoria :: "string option"
  f_keywords :: "string list option"

record subcategoria_cache =
  sc_id :: "int option"
  sc_nombre :: string
  sc_keywords :: "string list"

record categoria_cache =
  cat_id :: int
  cat_nombre :: string
  cat_subcategorias :: "subcategoria_cache list"

type_synonym categoriasCache = "(int \<times> categoria_cache) list"
  \<comment> \<open>a \<open>Map\<close>, which iterates in insertion order: the entries in that order\<close>

fun cache_has :: "categoriasCache \<Rightarrow> int \<Rightarrow> bool" where
  "cache_has [] k = False"
| "cache_has ((k', v) # resto) k = (k' = k \<or> cache_has resto k)"

fun push_subcategoria :: "categoriasCache \<Rightarrow> int \<Rightarrow> subcategoria_cache \<Rightarrow> categoriasCache" where
  \<comment> \<open>\<open>categoriasCache.get(k).subcategorias.push(sub)\<close>\<close>
  "push_subcategoria [] k sub = []"
| "push_subcategoria ((k', v) # resto) k sub =
     (if k' = k then (k', v\<lparr>cat_subcategorias := cat_subcategorias v @ [sub]\<rparr>) # resto
      else (k', v) # push_subcategoria resto k sub)"

definition cargar_fila :: "categoriasCache \<Rightarrow> fila_categoria \<Rightarrow> categoriasCache" where
  \<comment> \<open>the body of \<open>categorias.rows.forEach(row => ...)\<close>; the subcategory object is
      built with \<open>nombre\<close> and \<open>keywords\<close> only\<close>
  "cargar_fila cache row =
     (let cache1 =
            (if \<not> cache_has cache (f_id row)
             then cache @ [(f_id row,
                    \<lparr>cat_id = f_id row, cat_nombre = f_nombre row, cat_subcategorias = []\<rparr>)]
             else cache)
      in case f_subcategoria row of
           None \<Rightarrow> cache1
         | Some subcategoria \<Rightarrow>
             if subcategoria = [] then cache1
             else push_subcategoria cache1 (f_id row)
                    \<lparr>sc_id = None, sc_nombre = subcategoria,
                     sc_keywords = (case f_keywords row of None \<Rightarrow> [] | Some ks \<Rightarrow> ks)\<rparr>)"

definition cargarCaches :: "fila_categoria list \<Rightarrow> categoriasCache" where
  \<comment> \<open>the category half of \<open>cargarCaches\<close>: \<open>categoriasCache.clear()\<close>, then every row\<close>
  "cargarCaches filas = foldl cargar_fila [] filas"

record categorizacion =
  categoria_id :: int
  categoria_nombre :: string
  subcategoria_id :: "int option"
  subcategoria_nombre :: "string option"
  keyword_encontrada :: "string option"
  descripcion :: "string option"
    \<comment> \<open>read by \<open>calcularUrgencia\<close> as \<open>categoria.descripcion\<close>; \<open>categorizarQueja\<close>
        returns objects without it\<close>

fun buscar_keyword :: "string \<Rightarrow> string list \<Rightarrow> string option" where
  \<comment> \<open>\<open>for (const keyword of subcategoria.keywords)\<close>, left on the first hit\<close>
  "buscar_keyword descripcionLower [] = None"
| "buscar_keyword descripcionLower (keyword # resto) =
     (if js_includes descripcionLower (toLowerCase keyword) then Some keyword
      else buscar_keyword descripcionLower resto)"

fun buscar_subcategoria ::
  "string \<Rightarrow> int \<Rightarrow> categoria_cache \<Rightarrow> subcategoria_cache list \<Rightarrow> categorizacion option" where
  \<comment> \<open>\<open>for (const subcategoria of categoria.subcategorias)\<close>\<close>
  "buscar_subcategoria descripcionLower categoriaId categoria [] = None"
| "buscar_subcategoria descripcionLower categoriaId categoria (subcategoria # resto) =
     (case buscar_keyword descripcionLower (sc_keywords subcategoria) of
        Some keyword \<Rightarrow>
          Some \<lparr>categoria_id = categoriaId,
                categoria_nombre = cat_nombre categoria,
                subcategoria_id = sc_id subcategoria,
                subcategoria_nombre = Some (sc_nombre subcategoria),
                keyword_encontrada = Some keyword,
                descripcion = None\<rparr>
      | None \<Rightarrow> buscar_subcategoria descripcionLower categoriaId categoria resto)"

fun buscar_categoria :: "string \<Rightarrow> categoriasCache \<Rightarrow> categorizacion option" where
  \<comment> \<open>\<open>for (const [categoriaId, categoria] of categoriasCache)\<close>\<close>
  "buscar_categoria descripcionLower [] = None"
| "buscar_categoria descripcionLower ((categoriaId, categoria) # resto) =
     (case buscar_subcategoria descripcionLower categoriaId categoria
             (cat_subcategorias categoria) of
        Some r \<Rightarrow> Some r
      | None \<Rightarrow> buscar_categoria descripcionLower resto)"

definition categoria_por_defecto :: categorizacion where
  "categoria_por_defecto =
     \<lparr>categoria_id = 10,
      categoria_nombre = ''Satisfacci'' @ [CHR 0xF3] @ ''n General'',
      subcategoria_id = None,
      subcategoria_nombre = None,
      keyword_encontrada = None,
      descripcion = None\<rparr>"

definition categorizarQueja :: "categoriasCache \<Rightarrow> string \<Rightarrow> categorizacion" where
  "categorizarQueja cache descripcion_texto =
     (let descripcionLower = toLowerCase descripcion_texto
      in case buscar_categoria descripcionLower cache of
           Some r \<Rightarrow> r
         | None \<Rightarrow> categoria_por_defecto)"

text \<open>The iteration order as one list: every (category key, category, subcategory,
  keyword) in the order of the three nested loops.\<close>

definition candidatos ::
  "categoriasCache \<Rightarrow> (int \<times> categoria_cache \<times> subcategoria_cache \<times> string) list" where
  "candidatos cache =
     concat (map (\<lambda>(categoriaId, categoria).
       concat (map (\<lambda>subcategoria.
         map (\<lambda>keyword. (categoriaId, categoria, subcategoria, keyword))
           (sc_keywords subcategoria))
         (cat_subcategorias categoria)))
       cache)"

definition coincide ::
  "string \<Rightarrow> int \<times> categoria_cache \<times> subcategoria_cache \<times> string \<Rightarrow> bool" where
  \<comment> \<open>the case-insensitive substring test of the innermost loop\<close>
  "coincide texto c =
     (case c of (categoriaId, categoria, subcategoria, keyword) \<Rightarrow>
        js_includes (toLowerCase texto) (toLowerCase keyword))"

definition resultado_de ::
  "int \<times> categoria_cache \<times> subcategoria_cache \<times> string \<Rightarrow> categorizacion" where
  "resultado_de c =
     (case c of (categoriaId, categoria, subcategoria, keyword) \<Rightarrow>
        \<lparr>categoria_id = categoriaId,
         categoria_nombre = cat_nombre categoria,
         subcategoria_id = sc_id subcategoria,
         subcategoria_nombre = Some (sc_nombre subcategoria),
         keyword_encontrada = Some keyword,
         descripcion = None\<rparr>)"


definition filas_semilla :: "fila_categoria list" where
  \<comment> \<open>the rows of the cache query on the catalogue of the seeding script, by category\<close>
  "filas_semilla =
     [\<lparr>f_id = 1, f_nombre = ''Calidad del Producto'',
       f_subcategoria = Some (''Comida Fr'' @ [CHR 0xED] @ ''a''),
       f_keywords = Some [''frio'', ''fr'' @ [CHR 0xED] @ ''a'', ''temperatura'', ''caliente'',
                          ''tibio'']\<rparr>,
      \<lparr>f_id = 1, f_nombre = ''Calidad del Producto'', f_subcategoria = Some ''Pollo Crudo'',
       f_keywords = Some [''crudo'', ''rosa'', ''sangre'', ''mal cocido'', ''rojo'']\<rparr>,
      \<lparr>f_id = 1, f_nombre = ''Calidad del Producto'',
       f_subcategoria = Some ''Sabor Desagradable'',
       f_keywords = Some [''malo'', ''sabor'', ''feo'', ''horrible'', ''raro'']\<rparr>,
      \<lparr>f_id = 2, f_nombre = ''Servicio al Cliente'', f_subcategoria = Some ''Demora Excesiva'',
       f_keywords = Some [''espera'', ''demora'', ''tarde'', ''lento'', ''tiempo'']\<rparr>,
      \<lparr>f_id = 2, f_nombre = ''Servicio al Cliente'', f_subcategoria = Some ''Personal Grosero'',
       f_keywords = Some [''grosero'', ''mala actitud'', ''descort'' @ [CHR 0xE9] @ ''s'',
                          ''mal trato'']\<rparr>,
      \<lparr>f_id = 3, f_nombre = ''Higiene y Limpieza'', f_subcategoria = Some ''Restaurante Sucio'',
       f_keywords = Some [''sucio'', ''cochino'', ''limpieza'', ''asqueroso'']\<rparr>,
      \<lparr>f_id = 3, f_nombre = ''Higiene y Limpieza'',
       f_subcategoria = Some (''Ba'' @ [CHR 0xF1] @ ''os Sucios''),
       f_keywords = Some [''ba'' @ [CHR 0xF1] @ ''o'', ''sanitario'', ''wc'', ''sucio'']\<rparr>,
      \<lparr>f_id = 4, f_nombre = ''Precio y Facturaci'' @ [CHR 0xF3] @ ''n'',
       f_subcategoria = Some ''Cobro Incorrecto'',
       f_keywords = Some [''cobro'', ''precio'', ''factura'', ''caro'', ''cuenta'']\<rparr>,
      \<lparr>f_id = 5, f_nombre = ''Infraestructura'', f_subcategoria = None, f_keywords = None\<rparr>,
      \<lparr>f_id = 6, f_nombre = ''Entrega a Domicilio'',
       f_subcategoria = Some (''Delivery Tard'' @ [CHR 0xED] @ ''o''),
       f_keywords = Some [''delivery'', ''domicilio'', ''entrega'',
                          ''tard'' @ [CHR 0xF3]]\<rparr>,
      \<lparr>f_id = 7, f_nombre = ''Promociones'', f_subcategoria = None, f_keywords = None\<rparr>,
      \<lparr>f_id = 8, f_nombre = ''Personal'', f_subcategoria = None, f_keywords = None\<rparr>,
      \<lparr>f_id = 9, f_nombre = ''Tecnolog'' @ [CHR 0xED] @ ''a'',
       f_subcategoria = Some ''App No Funciona'',
       f_keywords = Some [''app'', ''aplicaci'' @ [CHR 0xF3] @ ''n'', ''celular'',
                          ''no funciona'']\<rparr>,
      \<lparr>f_id = 10, f_nombre = ''Satisfacci'' @ [CHR 0xF3] @ ''n General'',
       f_subcategoria = None, f_keywords = None\<rparr>]"


section \<open>Urgency\<close>

definition palabrasUrgentes :: "string list" where
  "palabrasUrgentes =
     [''intoxicaci'' @ [CHR 0xF3] @ ''n'', ''enfermo'', ''v'' @ [CHR 0xF3] @ ''mito'',
      ''ambulancia'', ''hospital'']"

definition calcularUrgencia :: "analisis_sentimiento \<Rightarrow> categorizacion \<Rightarrow> int" where
  "calcularUrgencia sent categoria =
     (let urgencia = 1;
          urgencia =
            (if sentimiento sent = muy_negativo then urgencia + 2
             else if sentimiento sent = negativo then urgencia + 1
             else urgencia);
          urgencia =
            (if categoria_nombre categoria = ''Higiene y Limpieza'' then urgencia + 2
             else if categoria_nombre categoria = ''Calidad del Producto'' then urgencia + 1
             else if categoria_nombre categoria = ''Personal'' then urgencia + 1
             else urgencia);
          descripcionLower =
            (case descripcion categoria of None \<Rightarrow> [] | Some d \<Rightarrow> toLowerCase d);
          urgencia =
            (if list_ex (\<lambda>palabra. js_includes descripcionLower palabra) palabrasUrgentes
             then 5 else urgencia)
      in min urgencia 5)"

definition urgencia_ia :: "categoriasCache \<Rightarrow> string \<Rightarrow> int" where
  \<comment> \<open>steps 2, 3 and 5 of \<open>procesarQuejaConIA\<close> on a normalized description\<close>
  "urgencia_ia cache texto =
     calcularUrgencia (analizar_sentimiento_basico texto) (categorizarQueja cache texto)"

definition palabrasUrgentes_simple :: "string list" where
  \<comment> \<open>the list of the simple server's webhook\<close>
  "palabrasUrgentes_simple =
     [''horrible'', ''asqueroso'', ''intoxicaci'' @ [CHR 0xF3] @ ''n'', ''enfermo'']"

definition urgencia_simple :: "analisis_sentimiento \<Rightarrow> string \<Rightarrow> int" where
  \<comment> \<open>step 4 of the simple server's webhook, on a description that is a string\<close>
  "urgencia_simple sent descripcion_texto =
     (let urgencia = 1;
          urgencia =
            (if sentimiento sent = muy_negativo then 4
             else if sentimiento sent = negativo then 3
             else if sentimiento sent = positivo then 1
             else urgencia);
          urgencia =
            (if list_ex (\<lambda>palabra. js_includes (toLowerCase descripcion_texto) palabra)
                  palabrasUrgentes_simple
             then 5 else urgencia)
      in urgencia)"

section \<open>Keyword extraction\<close>

definition es_palabra :: "char \<Rightarrow> bool" where
  \<comment> \<open>the class \<open>\w\<close> of a regular expression without the \<open>u\<close> flag\<close>
  "es_palabra c =
     ((CHR ''a'' \<le> c \<and> c \<le> CHR ''z'') \<or> (CHR ''A'' \<le> c \<and> c \<le> CHR ''Z'') \<or>
      (CHR ''0'' \<le> c \<and> c \<le> CHR ''9'') \<or> c = CHR ''_'')"

definition es_espacio :: "char \<Rightarrow> bool" where
  \<comment> \<open>the class \<open>\s\<close>, which is also what \<open>trim\<close> removes: of the code units up to
      \<open>0xFF\<close>, tab to carriage return, the space and the no-break space\<close>
  "es_espacio c = ((CHR 0x09 \<le> c \<and> c \<le> CHR 0x0D) \<or> c = CHR 0x20 \<or> c = CHR 0xA0)"

definition reemplazar_signos :: "string \<Rightarrow> string" where
  \<comment> \<open>\<open>.replace(/[^\w\s]/g, ' ')\<close>\<close>
  "reemplazar_signos s = map (\<lambda>c. if \<not> es_palabra c \<and> \<not> es_espacio c then CHR '' '' else c) s"

function split_desde :: "string \<Rightarrow> string \<Rightarrow> string list" where
  \<comment> \<open>\<open>.split(/\s+/)\<close> with the piece read so far: a run of white space ends the piece\<close>
  "split_desde actual [] = [actual]"
| "split_desde actual (c # cs) =
     (if es_espacio c then actual # split_desde [] (dropWhile es_espacio cs)
      else split_desde (actual @ [c]) cs)"
  by pat_completeness auto
termination
  by (relation "measure (\<lambda>(actual, s). length s)")
     (auto simp add: length_dropWhile_le less_Suc_eq_le)

definition split_espacios :: "string \<Rightarrow> string list" where
  "split_espacios s = split_desde [] s"

text \<open>\<open>isNaN(palabra)\<close> converts the string with \<open>Number\<close>: white space is trimmed, the
  empty string is 0, and otherwise the string must be a decimal literal (sign, digits,
  point, exponent, or \<open>Infinity\<close>) or a binary, octal or hexadecimal integer literal.\<close>

definition es_digito :: "char \<Rightarrow> bool" where
  "es_digito c = (CHR ''0'' \<le> c \<and> c \<le> CHR ''9'')"

definition sin_signo :: "string \<Rightarrow> string" where
  "sin_signo s =
     (case s of [] \<Rightarrow> [] | c # cs \<Rightarrow> if c = CHR ''+'' \<or> c = CHR ''-'' then cs else s)"

definition es_exponente :: "string \<Rightarrow> bool" where
  \<comment> \<open>an optional exponent part, up to the end of the string\<close>
  "es_exponente s =
     (case s of [] \<Rightarrow> True
      | c # cs \<Rightarrow> (c = CHR ''e'' \<or> c = CHR ''E'') \<and> sin_signo cs \<noteq> [] \<and>
                  list_all es_digito (sin_signo cs))"

definition es_decimal_sin_signo :: "string \<Rightarrow> bool" where
  "es_decimal_sin_signo s =
     (s = ''Infinity'' \<or>
      (let enteros = takeWhile es_digito s; resto = dropWhile es_digito s
       in case resto of
            [] \<Rightarrow> enteros \<noteq> []
          | c # cs \<Rightarrow>
              if c = CHR ''.''
              then (enteros \<noteq> [] \<or> takeWhile es_digito cs \<noteq> []) \<and>
                   es_exponente (dropWhile es_digito cs)
              else enteros \<noteq> [] \<and> es_exponente resto))"

definition es_entero_no_decimal :: "string \<Rightarrow> bool" where
  "es_entero_no_decimal s =
     (case s of
        c0 # x # ds \<Rightarrow>
          c0 = CHR ''0'' \<and> ds \<noteq> [] \<and>
          (if x = CHR ''b'' \<or> x = CHR ''B'' then list_all (\<lambda>d. d = CHR ''0'' \<or> d = CHR ''1'') ds
           else if x = CHR ''o'' \<or> x = CHR ''O''
             then list_all (\<lambda>d. CHR ''0'' \<le> d \<and> d \<le> CHR ''7'') ds
           else if x = CHR ''x'' \<or> x = CHR ''X''
             then list_all (\<lambda>d. es_digito d \<or> (CHR ''a'' \<le> d \<and> d \<le> CHR ''f'') \<or>
                                 (CHR ''A'' \<le> d \<and> d \<le> CHR ''F'')) ds
           else False)
      | _ \<Rightarrow> False)"

definition trim :: "string \<Rightarrow> string" where
  \<comment> \<open>\<open>String.prototype.trim\<close>\<close>
  "trim s = rev (dropWhile es_espacio (rev (dropWhile es_espacio s)))"

definition isNaN :: "string \<Rightarrow> bool" where
  "isNaN s =
     (let t = trim s
      in \<not> (t = [] \<or> es_decimal_sin_signo (sin_signo t) \<or> es_entero_no_decimal t))"

definition palabrasComunes :: "string list" where
  "palabrasComunes =
     [''el'', ''la'', ''de'', ''que'', ''y'', ''a'', ''en'', ''un'', ''es'', ''se'', ''no'',
      ''te'', ''lo'', ''le'', ''da'', ''su'', ''por'', ''son'', ''con'', ''para'', ''al'',
      ''del'', ''est'' @ [CHR 0xE1], ''muy'', ''me'', ''pero'', ''todo'', ''mi'', ''fue'',
      ''era'']"

definition palabras_de :: "string \<Rightarrow> string list" where
  \<comment> \<open>\<open>const palabras = descripcion.toLowerCase().replace(...).split(...).filter(...)\<close>\<close>
  "palabras_de descripcion_texto =
     filter (\<lambda>palabra. length palabra > 3 \<and> palabra \<notin> set palabrasComunes \<and> isNaN palabra)
       (split_espacios (reemplazar_signos (toLowerCase descripcion_texto)))"

text \<open>
  \<open>frecuencia\<close> is an object created by \<open>{}\<close>: its own properties, in creation order
  (no key is an array index: such a word is a number and was filtered out), and behind
  them the properties of \<open>Object.prototype\<close>. Two of those have names that a word can
  have. \<open>frecuencia['constructor']\<close> reads the function \<open>Object\<close>, which is truthy, and
  \<open>Object + 1\<close> is a string: the word gets a string instead of a count, and the string
  grows at each later occurrence. \<open>frecuencia['__proto__']\<close> reads the prototype, and
  the assignment of the resulting string to \<open>__proto__\<close> is ignored: the word never
  becomes a property.
\<close>

datatype valor = Numero nat | Cadena
  \<comment> \<open>\<open>Cadena\<close>: a string that is not the text of a number\<close>

type_synonym frecuencia = "(string \<times> valor) list"

fun asignar :: "frecuencia \<Rightarrow> string \<Rightarrow> valor \<Rightarrow> frecuencia" where
  \<comment> \<open>\<open>frecuencia[palabra] = v\<close>: an own property keeps its place, a new one goes last\<close>
  "asignar [] palabra v = [(palabra, v)]"
| "asignar ((k, w) # resto) palabra v =
     (if k = palabra then (k, v) # resto else (k, w) # asignar resto palabra v)"

definition contar_palabra :: "frecuencia \<Rightarrow> string \<Rightarrow> frecuencia" where
  \<comment> \<open>\<open>frecuencia[palabra] = (frecuencia[palabra] || 0) + 1\<close>\<close>
  "contar_palabra frec palabra =
     (if palabra = ''__proto__'' then frec
      else case map_of frec palabra of
             Some (Numero n) \<Rightarrow> asignar frec palabra (Numero (n + 1))
           | Some Cadena \<Rightarrow> asignar frec palabra Cadena
           | None \<Rightarrow>
               if palabra = ''constructor'' then asignar frec palabra Cadena
               else asignar frec palabra (Numero 1))"

definition comparar :: "string \<times> valor \<Rightarrow> string \<times> valor \<Rightarrow> int" where
  \<comment> \<open>\<open>([,a], [,b]) => b - a\<close>; with a string the difference is \<open>NaN\<close>, which \<open>sort\<close>
      takes as 0\<close>
  "comparar x y =
     (case (snd x, snd y) of
        (Numero a, Numero b) \<Rightarrow> int b - int a
      | _ \<Rightarrow> 0)"

fun insertar :: "string \<times> valor \<Rightarrow> frecuencia \<Rightarrow> frecuencia" where
  "insertar x [] = [x]"
| "insertar x (y # ys) = (if comparar x y \<le> 0 then x # y # ys else y # insertar x ys)"

definition ordenar :: "frecuencia \<Rightarrow> frecuencia" where
  \<comment> \<open>\<open>Array.prototype.sort\<close> with a consistent comparator: the stable sort\<close>
  "ordenar entradas = foldr insertar entradas []"

definition comparador_consistente :: "frecuencia \<Rightarrow> bool" where
  \<comment> \<open>\<open>b - a\<close> is a consistent comparator on the entries unless one value is a string,
      equal to every count, and two counts differ\<close>
  "comparador_consistente entradas =
     (list_all (\<lambda>e. snd e \<noteq> Cadena) entradas \<or>
      list_all (\<lambda>e. list_all (\<lambda>e'. snd e = Cadena \<or> snd e' = Cadena \<or> snd e = snd e') entradas)
        entradas)"

definition extraerPalabrasClave :: "string \<Rightarrow> string list option" where
  \<comment> \<open>\<open>None\<close>: the comparator is inconsistent on the entries, and ECMAScript leaves the
      order that \<open>sort\<close> produces to the implementation\<close>
  "extraerPalabrasClave descripcion_texto =
     (let palabras = palabras_de descripcion_texto;
          frec = foldl contar_palabra [] palabras
      in if comparador_consistente frec
         then Some (map fst (take 5 (ordenar frec)))
         else None)"

text \<open>The order as the specification words it: the distinct words in the order of their
  first occurrence, sorted by descending frequency with a stable sort.\<close>

definition primeras :: "'a list \<Rightarrow> 'a list" where
  \<comment> \<open>the distinct elements, each at its first occurrence\<close>
  "primeras ws = rev (remdups (rev ws))"

definition por_frecuencia :: "string list \<Rightarrow> string list" where
  "por_frecuencia ws = sort_key (\<lambda>w. - int (count_list ws w)) (primeras ws)"


section \<open>Raw submissions and the normalizer\<close>

text \<open>
  A raw submission is the parsed JSON body of a request. Its field values are modelled
  by the scalar JSON values; \<open>JNum n\<close> is a number whose value is the integer \<open>n\<close>, with
  \<open>|n| < 10^21\<close>, where \<open>toString\<close> writes all digits. Arrays, nested objects and numbers
  with a fraction are outside the model. \<open>JUndefined\<close> is what reading a missing field
  gives.
\<close>

datatype jsval = JUndefined | JNull | JBool bool | JNum int | JStr string

type_synonym datos = "(string \<times> jsval) list"

definition campo :: "datos \<Rightarrow> string \<Rightarrow> jsval" where
  \<comment> \<open>\<open>datos.k\<close>\<close>
  "campo d k = (case map_of d k of None \<Rightarrow> JUndefined | Some v \<Rightarrow> v)"

fun truthy :: "jsval \<Rightarrow> bool" where
  "truthy JUndefined = False"
| "truthy JNull = False"
| "truthy (JBool b) = b"
| "truthy (JNum n) = (n \<noteq> 0)"
| "truthy (JStr s) = (s \<noteq> [])"

definition js_or :: "jsval \<Rightarrow> jsval \<Rightarrow> jsval" where
  \<comment> \<open>\<open>a || b\<close>\<close>
  "js_or a b = (if truthy a then a else b)"

datatype consulta =
  Q_Connect | Q_Begin | Q_Sentimiento | Q_Sucursal | Q_ClienteSelect | Q_ClienteInsert
  | Q_QuejaInsert | Q_Estadisticas | Q_Insight | Q_Commit

datatype js_error =
  TypeError
  | ErrorConsulta consulta  \<comment> \<open>the error that a failed query or connection throws\<close>

fun js_toString :: "jsval \<Rightarrow> js_error + string" where
  \<comment> \<open>\<open>v.toString()\<close>, and the conversion of a template literal on a value that is
      neither \<open>undefined\<close> nor \<open>null\<close>\<close>
  "js_toString JUndefined = Inl TypeError"
| "js_toString JNull = Inl TypeError"
| "js_toString (JBool b) = Inr (if b then ''true'' else ''false'')"
| "js_toString (JNum n) = Inr (texto_de_entero n)"
| "js_toString (JStr s) = Inr s"

definition limpiarTexto :: "jsval \<Rightarrow> js_error + string option" where
  \<comment> \<open>\<open>None\<close> is \<open>null\<close>\<close>
  "limpiarTexto texto =
     (if \<not> truthy texto then Inr None
      else case js_toString texto of
             Inl e \<Rightarrow> Inl e
           | Inr s \<Rightarrow> Inr (Some (take 1000 (trim s))))"

definition limpiarTelefono :: "jsval \<Rightarrow> js_error + string option" where
  \<comment> \<open>\<open>telefono.includes('url')\<close> is evaluated when \<open>telefono\<close> is truthy and is not
      \<open>'edna'\<close>; a number or \<open>true\<close> has no method \<open>includes\<close>\<close>
  "limpiarTelefono telefono =
     (if \<not> truthy telefono then Inr None
      else if telefono = JStr ''edna'' then Inr None
      else case telefono of
             JStr s \<Rightarrow>
               if js_includes s ''url'' then Inr None
               else (let soloNumeros = filter es_digito s
                     in if length soloNumeros = 10 then Inr (Some soloNumeros)
                        else if length soloNumeros = 12 \<and> startsWith soloNumeros ''52''
                          then Inr (Some (drop 2 soloNumeros))
                        else Inr None)
           | _ \<Rightarrow> Inl TypeError)"

text \<open>A date is its time value, in milliseconds. \<open>ahora\<close> is the value of \<open>new Date()\<close>
  and \<open>date_parse\<close> is \<open>Date.parse\<close> on strings, \<open>None\<close> for an invalid date; both are
  parameters.\<close>

definition parsearFecha :: "int \<Rightarrow> (string \<Rightarrow> int option) \<Rightarrow> jsval option \<Rightarrow> int" where
  \<comment> \<open>the argument is \<open>None\<close> when it is the \<open>Date\<close> object of the default\<close>
  "parsearFecha ahora date_parse fecha =
     (case fecha of
        None \<Rightarrow> ahora
      | Some (JStr s) \<Rightarrow> (case date_parse s of None \<Rightarrow> ahora | Some t \<Rightarrow> t)
      | Some (JNum n) \<Rightarrow> (if \<bar>n\<bar> \<le> 8640000000000000 then n else ahora)
      | Some (JBool b) \<Rightarrow> (if b then 1 else 0)
      | Some JNull \<Rightarrow> 0
      | Some JUndefined \<Rightarrow> ahora)"

record datos_normalizados =
  n_nombre :: "string option"
  n_telefono :: "string option"
  n_descripcion :: "string option"
  n_sucursal :: "string option"
  n_fecha_creacion :: int

definition normalizarDatos ::
  "int \<Rightarrow> (string \<Rightarrow> int option) \<Rightarrow> datos \<Rightarrow> js_error + datos_normalizados" where
  \<comment> \<open>the properties of the object literal are evaluated in order\<close>
  "normalizarDatos ahora date_parse d =
     (case limpiarTexto (js_or (campo d ''nombre'') (campo d ''Nombre'')) of
        Inl e \<Rightarrow> Inl e
      | Inr nombre_limpio \<Rightarrow>
     (case limpiarTelefono (js_or (campo d ''telefono'') (campo d ''Telefono'')) of
        Inl e \<Rightarrow> Inl e
      | Inr telefono_limpio \<Rightarrow>
     (case limpiarTexto
             (js_or (js_or (js_or (campo d ''descripcion'')
                                  (campo d (''Descripci'' @ [CHR 0xF3] @ ''n'')))
                           (campo d (''descripci'' @ [CHR 0xF3] @ ''n'')))
                    (JStr (''Sin descripci'' @ [CHR 0xF3] @ ''n''))) of
        Inl e \<Rightarrow> Inl e
      | Inr descripcion_limpia \<Rightarrow>
     (case limpiarTexto (js_or (campo d ''sucursal'') (campo d ''Sucursal'')) of
        Inl e \<Rightarrow> Inl e
      | Inr sucursal_limpia \<Rightarrow>
          Inr \<lparr>n_nombre = nombre_limpio, n_telefono = telefono_limpio,
               n_descripcion = descripcion_limpia, n_sucursal = sucursal_limpia,
               n_fecha_creacion =
                 (let f = js_or (campo d ''fecha_creacion'') (campo d ''Created on'')
                  in parsearFecha ahora date_parse (if truthy f then Some f else None))\<rparr>))))"


section \<open>The database and the two webhooks\<close>












































definition subcategorias_de :: "int \<Rightarrow> categoriasCache \<Rightarrow> subcategoria_cache list" where
  \<comment> \<open>the subcategories cached under key \<open>k\<close>\<close>
  "subcategorias_de k cache =
     concat (map (\<lambda>(k', c). if k' = k then cat_subcategorias c else []) cache)"

definition subcategoria_de_fila :: "fila_categoria \<Rightarrow> subcategoria_cache list" where
  \<comment> \<open>what a row adds to its category: one subcategory, or nothing when the row has none\<close>
  "subcategoria_de_fila row =
     (case f_subcategoria row of
        None \<Rightarrow> []
      | Some subcategoria \<Rightarrow>
          if subcategoria = [] then []
          else [\<lparr>sc_id = None, sc_nombre = subcategoria,
                 sc_keywords = (case f_keywords row of None \<Rightarrow> [] | Some ks \<Rightarrow> ks)\<rparr>])"

definition bono_categoria :: "categorizacion \<Rightarrow> int" where
  \<comment> \<open>what \<open>calcularUrgencia\<close> adds for the category name\<close>
  "bono_categoria categoria =
     (if categoria_nombre categoria = ''Higiene y Limpieza'' then 2
      else if categoria_nombre categoria = ''Calidad del Producto'' then 1
      else if categoria_nombre categoria = ''Personal'' then 1 else 0)"

definition palabra_urgente_simple :: "string \<Rightarrow> bool" where
  \<comment> \<open>the test of the simple server's override\<close>
  "palabra_urgente_simple t =
     list_ex (\<lambda>palabra. js_includes (toLowerCase t) palabra) palabrasUrgentes_simple"

definition palabra_urgente_ia :: "categorizacion \<Rightarrow> bool" where
  \<comment> \<open>the test of the override of \<open>calcularUrgencia\<close>, on \<open>categoria.descripcion\<close>\<close>
  "palabra_urgente_ia categoria =
     list_ex (\<lambda>palabra. js_includes
                (case descripcion categoria of None \<Rightarrow> [] | Some d \<Rightarrow> toLowerCase d) palabra)
       palabrasUrgentes"

definition sin_id :: "categoriasCache \<Rightarrow> bool" where
  \<comment> \<open>no cached subcategory object has the property \<open>id\<close>\<close>
  "sin_id cache =
     list_all (\<lambda>(k, c). list_all (\<lambda>sub. sc_id sub = None) (cat_subcategorias c)) cache"



section \<open>Facts about texts and lists\<close>

declare like.simps(2) [simp del]

lemma startsWith_iff: "startsWith s k \<longleftrightarrow> (\<exists>b. s = k @ b)"
  by (induction s k rule: startsWith.induct) auto

lemma includes_iff: "js_includes s k \<longleftrightarrow> (\<exists>a b. s = a @ k @ b)"
proof (induction s)
  case Nil
  then show ?case by auto
next
  case (Cons c cs)
  have "(\<exists>a b. c # cs = a @ k @ b) \<longleftrightarrow> (\<exists>b. c # cs = k @ b) \<or> (\<exists>a b. cs = a @ k @ b)"
  proof
    assume "\<exists>a b. c # cs = a @ k @ b"
    then obtain a b where ab: "c # cs = a @ k @ b" by blast
    show "(\<exists>b. c # cs = k @ b) \<or> (\<exists>a b. cs = a @ k @ b)"
    proof (cases a)
      case Nil
      with ab show ?thesis by auto
    next
      case (Cons x a')
      with ab have "cs = a' @ k @ b" by simp
      then show ?thesis by blast
    qed
  next
    assume "(\<exists>b. c # cs = k @ b) \<or> (\<exists>a b. cs = a @ k @ b)"
    then show "\<exists>a b. c # cs = a @ k @ b"
    proof
      assume "\<exists>b. c # cs = k @ b"
      then obtain b where "c # cs = [] @ k @ b" by auto
      then show ?thesis by blast
    next
      assume "\<exists>a b. cs = a @ k @ b"
      then obtain a b where "c # cs = (c # a) @ k @ b" by auto
      then show ?thesis by blast
    qed
  qed
  with Cons show ?case by (simp add: startsWith_iff)
qed

lemma like_percent: "like s (CHR ''%'' # ps) \<longleftrightarrow> (\<exists>a b. s = a @ b \<and> like b ps)"
proof (induction s)
  case Nil
  then show ?case by (simp add: like.simps(2))
next
  case (Cons c cs)
  have "(\<exists>a b. c # cs = a @ b \<and> like b ps) \<longleftrightarrow>
        like (c # cs) ps \<or> (\<exists>a b. cs = a @ b \<and> like b ps)"
  proof
    assume "\<exists>a b. c # cs = a @ b \<and> like b ps"
    then obtain a b where ab: "c # cs = a @ b" "like b ps" by blast
    show "like (c # cs) ps \<or> (\<exists>a b. cs = a @ b \<and> like b ps)"
    proof (cases a)
      case Nil
      with ab show ?thesis by simp
    next
      case (Cons x a')
      with ab have "cs = a' @ b" by simp
      with ab(2) show ?thesis by blast
    qed
  next
    assume "like (c # cs) ps \<or> (\<exists>a b. cs = a @ b \<and> like b ps)"
    then show "\<exists>a b. c # cs = a @ b \<and> like b ps"
    proof
      assume "like (c # cs) ps"
      then have "c # cs = [] @ (c # cs) \<and> like (c # cs) ps" by simp
      then show ?thesis by blast
    next
      assume "\<exists>a b. cs = a @ b \<and> like b ps"
      then obtain a b where "c # cs = (c # a) @ b \<and> like b ps" by auto
      then show ?thesis by blast
    qed
  qed
  with Cons show ?case by (simp add: like.simps(2) [of _ "CHR ''%''"])
qed

lemma like_literal:
  "literal k \<Longrightarrow> like s (k @ ps) \<longleftrightarrow> (\<exists>b. s = k @ b \<and> like b ps)"
proof (induction k arbitrary: s)
  case Nil
  then show ?case by simp
next
  case (Cons x k)
  then have x: "x \<noteq> CHR ''%''" "x \<noteq> CHR ''_''" "x \<noteq> CHR 0x5C" and k: "literal k"
    by (simp_all add: literal_def)
  show ?case
  proof (cases s)
    case Nil
    with x show ?thesis by (simp add: like.simps(2))
  next
    case (Cons c cs)
    with x Cons.IH [OF k, of cs] show ?thesis by (auto simp add: like.simps(2))
  qed
qed

lemma like_contains:
  assumes "literal k"
  shows "like s (''%'' @ k @ ''%'') \<longleftrightarrow> js_includes s k"
proof -
  have any: "like b ''%''" for b
    by (simp add: like_percent)
  have "like s (''%'' @ k @ ''%'') \<longleftrightarrow> (\<exists>a b. s = a @ b \<and> like b (k @ ''%''))"
    by (simp add: like_percent)
  also have "\<dots> \<longleftrightarrow> (\<exists>a b. s = a @ b \<and> (\<exists>c. b = k @ c))"
    using any by (simp add: like_literal [OF assms])
  also have "\<dots> \<longleftrightarrow> js_includes s k"
    by (auto simp add: includes_iff)
  finally show ?thesis .
qed

lemma set_primeras [simp]: "set (primeras ws) = set ws"
  by (simp add: primeras_def)

lemma distinct_primeras [simp]: "distinct (primeras ws)"
  by (simp add: primeras_def)

lemma primeras_snoc:
  "primeras (ws @ [x]) = (if x \<in> set ws then primeras ws else primeras ws @ [x])"
  by (simp add: primeras_def)

lemma contar_palabras_filter:
  "contar_palabras t ks n = n + length (filter (\<lambda>k. like t (''%'' @ k @ ''%'')) ks)"
  by (induction ks arbitrary: n) simp_all

lemma contar_palabras_card:
  assumes "distinct ks" and "list_all literal ks"
  shows "contar_palabras t ks 0 = card {k \<in> set ks. js_includes t k}"
proof -
  have "filter (\<lambda>k. like t (''%'' @ k @ ''%'')) ks = filter (\<lambda>k. js_includes t k) ks"
  proof (rule filter_cong [OF refl])
    fix k assume "k \<in> set ks"
    with assms(2) have "literal k" by (simp add: list_all_iff)
    then show "like t (''%'' @ k @ ''%'') = js_includes t k" by (rule like_contains)
  qed
  then have "contar_palabras t ks 0 = length (filter (\<lambda>k. js_includes t k) ks)"
    by (simp add: contar_palabras_filter)
  also have "\<dots> = card ({k. js_includes t k} \<inter> set ks)"
    using assms(1) by (rule distinct_length_filter)
  also have "{k. js_includes t k} \<inter> set ks = {k \<in> set ks. js_includes t k}"
    by auto
  finally show ?thesis .
qed

lemma palabras_negativas_ok:
  "distinct palabras_negativas" "list_all literal palabras_negativas"
  by (simp_all add: palabras_negativas_def literal_def)

lemma palabras_positivas_ok:
  "distinct palabras_positivas" "list_all literal palabras_positivas"
  by (simp_all add: palabras_positivas_def literal_def)

lemma score_neg_eq: "contar_palabras (sql_lower t) palabras_negativas 0 = negCount t"
  by (simp add: contar_palabras_card palabras_negativas_ok negCount_def sql_lower_def
      toLowerCase_def)

lemma score_pos_eq: "contar_palabras (sql_lower t) palabras_positivas 0 = posCount t"
  by (simp add: contar_palabras_card palabras_positivas_ok posCount_def sql_lower_def
      toLowerCase_def)


section \<open>Sentiment: the four cases\<close>

text \<open>
  Claim C2. For every text, with \<open>negCount\<close> and \<open>posCount\<close> the numbers of distinct
  negative and positive keywords that occur in the lower-cased text as substrings, the
  scorer returns \<open>(muy_negativo, -0.8)\<close> when \<open>negCount > posCount + 1\<close>,
  \<open>(negativo, -0.4)\<close> when \<open>negCount > posCount\<close> but not above,
  \<open>(positivo, 0.6)\<close> when \<open>posCount > negCount\<close> and \<open>(neutral, 0.0)\<close> otherwise; the
  empty text has both counts zero and is neutral.
\<close>

theorem analizar_sentimiento_basico_cases:
  "analizar_sentimiento_basico texto =
     (if negCount texto > posCount texto + 1 then \<lparr>sentimiento = muy_negativo, score = - 0.8\<rparr>
      else if negCount texto > posCount texto then \<lparr>sentimiento = negativo, score = - 0.4\<rparr>
      else if posCount texto > negCount texto then \<lparr>sentimiento = positivo, score = 0.6\<rparr>
      else \<lparr>sentimiento = neutral, score = 0.0\<rparr>)
   \<and> negCount [] = 0 \<and> posCount [] = 0
   \<and> analizar_sentimiento_basico [] = \<lparr>sentimiento = neutral, score = 0.0\<rparr>"
proof -
  have main: "analizar_sentimiento_basico t =
     (if negCount t > posCount t + 1 then \<lparr>sentimiento = muy_negativo, score = - 0.8\<rparr>
      else if negCount t > posCount t then \<lparr>sentimiento = negativo, score = - 0.4\<rparr>
      else if posCount t > negCount t then \<lparr>sentimiento = positivo, score = 0.6\<rparr>
      else \<lparr>sentimiento = neutral, score = 0.0\<rparr>)" for t
    unfolding analizar_sentimiento_basico_def Let_def score_neg_eq score_pos_eq ..
  have neg0: "negCount [] = 0"
    by (simp add: negCount_def toLowerCase_def palabras_negativas_def)
  have pos0: "posCount [] = 0"
    by (simp add: posCount_def toLowerCase_def palabras_positivas_def)
  from main [of "[]"] neg0 pos0
  have "analizar_sentimiento_basico [] = \<lparr>sentimiento = neutral, score = 0.0\<rparr>" by simp
  with main neg0 pos0 show ?thesis by blast
qed

text \<open>The test of the seeding script.\<close>

lemma analizar_sentimiento_basico_ejemplo:
  "analizar_sentimiento_basico
     (''La comida estaba horrible y el servicio p'' @ [CHR 0xE9] @ ''simo'') =
   \<lparr>sentimiento = muy_negativo, score = - 0.8\<rparr>"
  by code_simp


section \<open>The categorizer returns the first match\<close>

lemma find_append_first:
  "find P (xs @ ys) = (case find P xs of None \<Rightarrow> find P ys | Some x \<Rightarrow> Some x)"
  by (induction xs) simp_all

lemma find_map_comp: "find P (map f xs) = map_option f (find (\<lambda>x. P (f x)) xs)"
  by (induction xs) simp_all

lemma buscar_keyword_find:
  "buscar_keyword d ks = find (\<lambda>k. js_includes d (toLowerCase k)) ks"
  by (induction ks) simp_all

lemma buscar_subcategoria_find:
  "buscar_subcategoria (toLowerCase t) k cat subs =
     map_option resultado_de
       (find (coincide t)
          (concat (map (\<lambda>sub. map (\<lambda>kw. (k, cat, sub, kw)) (sc_keywords sub)) subs)))"
proof (induction subs)
  case Nil
  then show ?case by simp
next
  case (Cons sub subs)
  have kw: "find (coincide t) (map (\<lambda>kw. (k, cat, sub, kw)) (sc_keywords sub)) =
      map_option (\<lambda>kw. (k, cat, sub, kw)) (buscar_keyword (toLowerCase t) (sc_keywords sub))"
    by (simp add: find_map_comp buscar_keyword_find coincide_def)
  show ?case
    by (cases "buscar_keyword (toLowerCase t) (sc_keywords sub)")
       (simp_all add: find_append_first kw Cons.IH resultado_de_def)
qed

lemma buscar_categoria_find:
  "buscar_categoria (toLowerCase t) cache =
     map_option resultado_de (find (coincide t) (candidatos cache))"
proof (induction cache)
  case Nil
  then show ?case by (simp add: candidatos_def)
next
  case (Cons kc cache)
  obtain k cat where kc: "kc = (k, cat)" by (cases kc)
  have split: "candidatos ((k, cat) # cache) =
      concat (map (\<lambda>sub. map (\<lambda>kw. (k, cat, sub, kw)) (sc_keywords sub)) (cat_subcategorias cat))
      @ candidatos cache"
    by (simp add: candidatos_def)
  show ?case
    unfolding kc split find_append_first
    by (simp add: Cons.IH buscar_subcategoria_find split: option.splits)
qed

lemma categorizarQueja_find:
  "categorizarQueja cache t =
     (case find (coincide t) (candidatos cache) of
        None \<Rightarrow> categoria_por_defecto
      | Some c \<Rightarrow> resultado_de c)"
  by (simp add: categorizarQueja_def buscar_categoria_find split: option.splits)

text \<open>The order of the cache is the order of registration: the categories by the first row
  that names them, the subcategories of a category in the order of their rows.\<close>

lemma cache_has_iff: "cache_has cache k \<longleftrightarrow> k \<in> fst ` set cache"
  by (induction cache k rule: cache_has.induct) auto

lemma claves_push: "map fst (push_subcategoria cache k sub) = map fst cache"
  by (induction cache k sub rule: push_subcategoria.induct) auto

lemma claves_cargar_fila:
  "map fst (cargar_fila cache row) =
     (if f_id row \<in> fst ` set cache then map fst cache else map fst cache @ [f_id row])"
  by (simp add: cargar_fila_def Let_def cache_has_iff claves_push split: option.splits)

lemma claves_cargarCaches: "map fst (cargarCaches filas) = primeras (map f_id filas)"
  unfolding cargarCaches_def
proof (induction filas rule: rev_induct)
  case Nil
  then show ?case by (simp add: primeras_def)
next
  case (snoc row filas)
  have "fst ` set (foldl cargar_fila [] filas) = f_id ` set filas"
    using snoc by (metis list.set_map set_primeras)
  with snoc show ?case by (simp add: claves_cargar_fila primeras_snoc)
qed

lemma subcategorias_de_simps:
  "subcategorias_de k [] = []"
  "subcategorias_de k ((k', c) # resto) =
     (if k' = k then cat_subcategorias c else []) @ subcategorias_de k resto"
  "subcategorias_de k (cache @ cache') = subcategorias_de k cache @ subcategorias_de k cache'"
  by (simp_all add: subcategorias_de_def)

lemma subcategorias_de_nueva: "k \<notin> fst ` set cache \<Longrightarrow> subcategorias_de k cache = []"
  by (induction cache) (auto simp add: subcategorias_de_simps)

lemma subcategorias_de_push:
  "distinct (map fst cache) \<Longrightarrow> k' \<in> fst ` set cache \<Longrightarrow>
   subcategorias_de k (push_subcategoria cache k' sub) =
     subcategorias_de k cache @ (if k = k' then [sub] else [])"
proof (induction cache k' sub rule: push_subcategoria.induct)
  case (1 k sub)
  then show ?case by simp
next
  case (2 k'' v resto k' sub)
  show ?case
  proof (cases "k'' = k'")
    case True
    with "2.prems" have "k' \<notin> fst ` set resto" by auto
    then have "subcategorias_de k' resto = []" by (rule subcategorias_de_nueva)
    with True show ?thesis by (auto simp add: subcategorias_de_simps)
  next
    case False
    with "2.prems" "2.IH" show ?thesis by (auto simp add: subcategorias_de_simps)
  qed
qed

lemma subcategorias_cargar_fila:
  assumes "distinct (map fst cache)"
  shows "subcategorias_de k (cargar_fila cache row) =
     subcategorias_de k cache @ (if f_id row = k then subcategoria_de_fila row else [])"
proof -
  let ?c1 = "if \<not> cache_has cache (f_id row)
             then cache @ [(f_id row,
                    \<lparr>cat_id = f_id row, cat_nombre = f_nombre row, cat_subcategorias = []\<rparr>)]
             else cache"
  have d: "distinct (map fst ?c1)" using assms by (simp add: cache_has_iff)
  have m: "f_id row \<in> fst ` set ?c1" by (simp add: cache_has_iff)
  have s: "subcategorias_de k ?c1 = subcategorias_de k cache"
    by (simp add: subcategorias_de_simps)
  show ?thesis
    unfolding cargar_fila_def Let_def
    using subcategorias_de_push [OF d m] s
    by (auto simp add: subcategoria_de_fila_def split: option.splits)
qed

lemma distinct_claves_foldl: "distinct (map fst (foldl cargar_fila [] filas))"
  using claves_cargarCaches [of filas] by (simp add: cargarCaches_def)

lemma subcategorias_cargarCaches:
  "subcategorias_de k (cargarCaches filas) =
     concat (map subcategoria_de_fila (filter (\<lambda>row. f_id row = k) filas))"
  unfolding cargarCaches_def
proof (induction filas rule: rev_induct)
  case Nil
  then show ?case by (simp add: subcategorias_de_simps)
next
  case (snoc row filas)
  then show ?case
    by (simp add: subcategorias_cargar_fila [OF distinct_claves_foldl])
qed

text \<open>
  Claim C4. For every text and every cache, the categorizer returns the result of the first
  keyword match in the order of the three loops (categories in the cache's order, their
  subcategories in order, each keyword list in order; the test is a case-insensitive
  substring test): whenever the candidate at position \<open>i\<close> matches and none before it
  does, the result is the one built from candidate \<open>i\<close>, so of two matching
  subcategories the earlier one wins; and when no keyword matches, the result is the
  fixed default category, with no subcategory and no keyword.
\<close>

theorem categorizarQueja_first_match:
  "(\<forall>i < length (candidatos cache).
      coincide texto (candidatos cache ! i) \<and>
      (\<forall>j < i. \<not> coincide texto (candidatos cache ! j)) \<longrightarrow>
      categorizarQueja cache texto = resultado_de (candidatos cache ! i))
   \<and> ((\<forall>c \<in> set (candidatos cache). \<not> coincide texto c) \<longrightarrow>
      categorizarQueja cache texto = categoria_por_defecto)"
proof (intro conjI allI impI)
  fix i
  assume i: "i < length (candidatos cache)"
    and m: "coincide texto (candidatos cache ! i) \<and>
            (\<forall>j < i. \<not> coincide texto (candidatos cache ! j))"
  then have "find (coincide texto) (candidatos cache) = Some (candidatos cache ! i)"
    by (auto simp add: find_Some_iff)
  then show "categorizarQueja cache texto = resultado_de (candidatos cache ! i)"
    by (simp add: categorizarQueja_find)
next
  assume "\<forall>c \<in> set (candidatos cache). \<not> coincide texto c"
  then have "find (coincide texto) (candidatos cache) = None"
    by (simp add: find_None_iff)
  then show "categorizarQueja cache texto = categoria_por_defecto"
    by (simp add: categorizarQueja_find)
qed

text \<open>On the seeded catalogue, \<open>todo horrible y sucio\<close> matches \<open>horrible\<close> of
  \<open>Sabor Desagradable\<close> (candidate 13) and \<open>sucio\<close> of \<open>Restaurante Sucio\<close>
  (candidate 24): the earlier one is returned. A text with no keyword gets the default.\<close>

theorem categorizarQueja_first_match_witness:
  "coincide ''todo horrible y sucio'' (candidatos (cargarCaches filas_semilla) ! 13)
   \<and> coincide ''todo horrible y sucio'' (candidatos (cargarCaches filas_semilla) ! 24)
   \<and> categorizarQueja (cargarCaches filas_semilla) ''todo horrible y sucio'' =
       resultado_de (candidatos (cargarCaches filas_semilla) ! 13)
   \<and> subcategoria_nombre
         (categorizarQueja (cargarCaches filas_semilla) ''todo horrible y sucio'') =
       Some ''Sabor Desagradable''
   \<and> categorizarQueja (cargarCaches filas_semilla) ''mi hijo se puso enfermo'' =
       categoria_por_defecto"
proof -
  let ?cache = "cargarCaches filas_semilla"
  let ?t = "''todo horrible y sucio''"
  have len: "13 < length (candidatos ?cache)" by code_simp
  have m13: "coincide ?t (candidatos ?cache ! 13)" by code_simp
  have m24: "coincide ?t (candidatos ?cache ! 24)" by code_simp
  have pre: "list_all (\<lambda>c. \<not> coincide ?t c) (take 13 (candidatos ?cache))"
    by code_simp
  have before: "\<forall>j<13. \<not> coincide ?t (candidatos ?cache ! j)"
  proof (intro allI impI)
    fix j :: nat
    assume j: "j < 13"
    with len have "take 13 (candidatos ?cache) ! j \<in> set (take 13 (candidatos ?cache))"
      by (intro nth_mem) simp
    with pre have "\<not> coincide ?t (take 13 (candidatos ?cache) ! j)"
      by (simp add: list_all_iff)
    with j show "\<not> coincide ?t (candidatos ?cache ! j)" by simp
  qed
  have "list_all (\<lambda>c. \<not> coincide ''mi hijo se puso enfermo'' c) (candidatos ?cache)"
    by code_simp
  then have none: "\<forall>c \<in> set (candidatos ?cache). \<not> coincide ''mi hijo se puso enfermo'' c"
    by (simp add: list_all_iff)
  have name: "subcategoria_nombre (resultado_de (candidatos ?cache ! 13)) =
      Some ''Sabor Desagradable''" by code_simp
  from categorizarQueja_first_match [of ?cache ?t] len m13 before
  have r: "categorizarQueja ?cache ?t = resultado_de (candidatos ?cache ! 13)" by blast
  from categorizarQueja_first_match [of ?cache "''mi hijo se puso enfermo''"] none
  have d: "categorizarQueja ?cache ''mi hijo se puso enfermo'' = categoria_por_defecto"
    by blast
  from m13 m24 r d name show ?thesis by simp
qed


section \<open>The subcategory id of a match\<close>

text \<open>\<open>cargarCaches\<close> builds every subcategory object from \<open>nombre\<close> and \<open>keywords\<close>
  (its query does not select the subcategory's id), and \<open>categorizarQueja\<close> reads
  \<open>subcategoria.id\<close>: on a cache that \<open>cargarCaches\<close> built, the field is never set.\<close>

lemma sin_id_push:
  "sin_id cache \<Longrightarrow> sc_id sub = None \<Longrightarrow> sin_id (push_subcategoria cache k sub)"
  by (induction cache k sub rule: push_subcategoria.induct) (auto simp add: sin_id_def)

lemma sin_id_cargar_fila: "sin_id cache \<Longrightarrow> sin_id (cargar_fila cache row)"
proof -
  assume c: "sin_id cache"
  let ?c1 = "if \<not> cache_has cache (f_id row)
             then cache @ [(f_id row,
                    \<lparr>cat_id = f_id row, cat_nombre = f_nombre row, cat_subcategorias = []\<rparr>)]
             else cache"
  from c have c1: "sin_id ?c1" by (simp add: sin_id_def)
  show ?thesis
    unfolding cargar_fila_def Let_def
    using c1 by (auto split: option.splits intro!: sin_id_push)
qed

lemma sin_id_foldl: "sin_id cache \<Longrightarrow> sin_id (foldl cargar_fila cache filas)"
  by (induction filas arbitrary: cache) (simp_all add: sin_id_cargar_fila)

lemma sin_id_cargarCaches: "sin_id (cargarCaches filas)"
  unfolding cargarCaches_def by (rule sin_id_foldl) (simp add: sin_id_def)

lemma candidatos_sin_id:
  "sin_id cache \<Longrightarrow> (k, c, sub, kw) \<in> set (candidatos cache) \<Longrightarrow> sc_id sub = None"
  by (auto simp add: sin_id_def candidatos_def list_all_iff)

lemma subcategoria_id_cargarCaches:
  "subcategoria_id (categorizarQueja (cargarCaches filas) t) = None"
proof (cases "find (coincide t) (candidatos (cargarCaches filas))")
  case None
  then show ?thesis by (simp add: categorizarQueja_find categoria_por_defecto_def)
next
  case (Some c)
  obtain k cat sub kw where c: "c = (k, cat, sub, kw)" by (cases c)
  from Some have "c \<in> set (candidatos (cargarCaches filas))"
    by (auto simp add: find_Some_iff)
  with c have "sc_id sub = None"
    using candidatos_sin_id [OF sin_id_cargarCaches] by blast
  with Some c show ?thesis by (simp add: categorizarQueja_find resultado_de_def)
qed

text \<open>
  Claim C8 says that for a text on which a subcategory keyword matches, the result carries
  the matched subcategory's id and name. On the seeded catalogue and the text
  \<open>el pollo estaba frio\<close> the keyword \<open>frio\<close> of subcategory \<open>Comida Fr\<dots>a\<close> matches
  and the name is returned, but \<open>subcategoria_id\<close> is undefined: the code reads a
  property that the cache loader never stores.
\<close>

theorem categorizarQueja_sin_subcategoria_id:
  "keyword_encontrada
     (categorizarQueja (cargarCaches filas_semilla) ''el pollo estaba frio'') = Some ''frio''
   \<and> subcategoria_nombre
     (categorizarQueja (cargarCaches filas_semilla) ''el pollo estaba frio'') =
       Some (''Comida Fr'' @ [CHR 0xED] @ ''a'')
   \<and> subcategoria_id
     (categorizarQueja (cargarCaches filas_semilla) ''el pollo estaba frio'') = None"
  by code_simp


section \<open>Urgency: the emergency override\<close>

lemma descripcion_categorizarQueja: "descripcion (categorizarQueja cache t) = None"
  by (cases "find (coincide t) (candidatos cache)")
     (auto simp add: categorizarQueja_find categoria_por_defecto_def resultado_de_def
        split: prod.splits)

lemma calcularUrgencia_sin_descripcion:
  assumes "descripcion categoria = None"
  shows "calcularUrgencia sent categoria =
     1 + (if sentimiento sent = muy_negativo then 2
          else if sentimiento sent = negativo then 1 else 0)
       + (if categoria_nombre categoria = ''Higiene y Limpieza'' then 2
          else if categoria_nombre categoria = ''Calidad del Producto'' then 1
          else if categoria_nombre categoria = ''Personal'' then 1 else 0)"
  using assms by (simp add: calcularUrgencia_def palabrasUrgentes_def Let_def)

lemma calcularUrgencia_con_descripcion:
  assumes "descripcion categoria = Some t"
    and "list_ex (\<lambda>palabra. js_includes (toLowerCase t) palabra) palabrasUrgentes"
  shows "calcularUrgencia sent categoria = 5"
  using assms by (simp add: calcularUrgencia_def Let_def)

lemma urgencia_simple_urgente:
  "list_ex (\<lambda>palabra. js_includes (toLowerCase t) palabra) palabrasUrgentes_simple \<Longrightarrow>
   urgencia_simple sent t = 5"
  by (simp add: urgencia_simple_def Let_def)

text \<open>
  Claim C3 says that a text with an emergency keyword gets urgency 5 whatever the
  sentiment and the category. \<open>calcularUrgencia\<close> looks for the keywords in
  \<open>categoria.descripcion\<close>, a property that the categorization it is called with does not
  have, so the override never fires in \<open>procesarQuejaConIA\<close>: the text
  \<open>mi hijo se puso enfermo\<close> contains \<open>enfermo\<close> and gets urgency 1. Had the object
  carried the description, the override would give 5
  (\<open>calcularUrgencia_con_descripcion\<close>); the simple server tests the description itself
  (\<open>urgencia_simple_urgente\<close>).
\<close>

theorem urgencia_ia_sin_override:
  "list_ex (\<lambda>palabra. js_includes (toLowerCase ''mi hijo se puso enfermo'') palabra)
     palabrasUrgentes
   \<and> urgencia_ia (cargarCaches filas_semilla) ''mi hijo se puso enfermo'' = 1"
  by code_simp


section \<open>Urgency: the two servers\<close>

lemma calcularUrgencia_casos:
  "calcularUrgencia sent categoria =
     (if palabra_urgente_ia categoria then 5
      else 1 + (if sentimiento sent = muy_negativo then 2
                else if sentimiento sent = negativo then 1 else 0)
             + bono_categoria categoria)"
  by (simp add: calcularUrgencia_def palabra_urgente_ia_def Let_def bono_categoria_def)

lemma urgencia_simple_casos:
  "urgencia_simple sent t =
     (if palabra_urgente_simple t then 5
      else if sentimiento sent = muy_negativo then 4
      else if sentimiento sent = negativo then 3 else 1)"
  by (simp add: urgencia_simple_def palabra_urgente_simple_def Let_def)

text \<open>
  Claim C10 says that the simple server and the AI server compute the same urgency for
  the same sentiment, category and description. They do not: for
  \<open>terrible, nunca vuelvo\<close> (very negative, default category) the simple server maps
  the sentiment to 4, the AI server adds 2 to the base 1.
\<close>

theorem urgencias_difieren:
  "urgencia_simple (analizar_sentimiento_basico ''terrible, nunca vuelvo'')
      ''terrible, nunca vuelvo'' = 4
   \<and> urgencia_ia (cargarCaches filas_semilla) ''terrible, nunca vuelvo'' = 3"
  by code_simp

text \<open>
  Claim C10, amended. For every sentiment, every description and every categorization,
  with or without the property \<open>descripcion\<close> that the override of \<open>calcularUrgencia\<close>
  reads, the two computations agree exactly in these cases: the override of the AI server
  fires and the description has one of the simple server's urgent words (both give 5); or
  the override does not fire, the description has one of the simple server's urgent words,
  the sentiment is very negative and the category is \<open>Higiene y Limpieza\<close> (both give
  5); or neither fires, the sentiment is very negative or negative and the category bonus
  is 1 (\<open>Calidad del Producto\<close>, \<open>Personal\<close>); or neither fires, the sentiment is neutral
  or positive and the category has no bonus.
\<close>

theorem urgencias_iguales_iff:
  "urgencia_simple sent t = calcularUrgencia sent categoria \<longleftrightarrow>
     (if palabra_urgente_ia categoria then palabra_urgente_simple t
      else if palabra_urgente_simple t
      then sentimiento sent = muy_negativo \<and> bono_categoria categoria = 2
      else if sentimiento sent = muy_negativo \<or> sentimiento sent = negativo
           then bono_categoria categoria = 1
           else bono_categoria categoria = 0)"
  unfolding calcularUrgencia_casos urgencia_simple_casos
  by (cases "sentimiento sent") (simp_all add: bono_categoria_def)

lemma urgencias_hospital:
  "(let t = ''lo llevaron al hospital'';
        c = categorizarQueja (cargarCaches filas_semilla) t;
        s = analizar_sentimiento_basico t
    in \<not> palabra_urgente_ia c
       \<and> palabra_urgente_ia (c\<lparr>descripcion := Some t\<rparr>)
       \<and> \<not> palabra_urgente_simple t
       \<and> sentimiento s = neutral
       \<and> bono_categoria c = 0
       \<and> urgencia_simple s t = 1
       \<and> calcularUrgencia s (c\<lparr>descripcion := Some t\<rparr>) = 5)"
  by code_simp

lemma urgencias_enfermo:
  "(let t = ''mi hijo se puso enfermo'';
        c = categorizarQueja (cargarCaches filas_semilla) t;
        s = analizar_sentimiento_basico t
    in \<not> palabra_urgente_ia c
       \<and> palabra_urgente_ia (c\<lparr>descripcion := Some t\<rparr>)
       \<and> palabra_urgente_simple t
       \<and> sentimiento s = neutral
       \<and> urgencia_simple s t = 5
       \<and> calcularUrgencia s c = 1)"
  by code_simp

lemma urgencias_sabor:
  "(let t = ''el sabor era terrible, nunca vuelvo'';
        c = categorizarQueja (cargarCaches filas_semilla) t;
        s = analizar_sentimiento_basico t
    in \<not> palabra_urgente_ia c
       \<and> \<not> palabra_urgente_ia (c\<lparr>descripcion := Some t\<rparr>)
       \<and> \<not> palabra_urgente_simple t
       \<and> sentimiento s = muy_negativo
       \<and> categoria_nombre c = ''Calidad del Producto''
       \<and> bono_categoria c = 1
       \<and> calcularUrgencia s c = 4)"
  by code_simp

text \<open>Three descriptions on the seeded catalogue, each with the categorization as
  \<open>categorizarQueja\<close> returns it and with the same categorization carrying the
  description. \<open>lo llevaron al hospital\<close> has a word of the AI server's list only: 1 and 1
  as the code is, 1 and 5 when the override reads the description.
  \<open>mi hijo se puso enfermo\<close> has a word of both lists: 5 and 1, then 5 and 5.
  \<open>el sabor era terrible, nunca vuelvo\<close> has no word of either list, is very negative and
  of category \<open>Calidad del Producto\<close>: 4 and 4 either way.\<close>

theorem urgencias_iguales_iff_witness:
  "urgencia_simple (analizar_sentimiento_basico ''lo llevaron al hospital'')
      ''lo llevaron al hospital'' =
   calcularUrgencia (analizar_sentimiento_basico ''lo llevaron al hospital'')
      (categorizarQueja (cargarCaches filas_semilla) ''lo llevaron al hospital'')
   \<and> urgencia_simple (analizar_sentimiento_basico ''lo llevaron al hospital'')
      ''lo llevaron al hospital'' \<noteq>
   calcularUrgencia (analizar_sentimiento_basico ''lo llevaron al hospital'')
      ((categorizarQueja (cargarCaches filas_semilla) ''lo llevaron al hospital'')
         \<lparr>descripcion := Some ''lo llevaron al hospital''\<rparr>)
   \<and> urgencia_simple (analizar_sentimiento_basico ''mi hijo se puso enfermo'')
      ''mi hijo se puso enfermo'' \<noteq>
   calcularUrgencia (analizar_sentimiento_basico ''mi hijo se puso enfermo'')
      (categorizarQueja (cargarCaches filas_semilla) ''mi hijo se puso enfermo'')
   \<and> urgencia_simple (analizar_sentimiento_basico ''mi hijo se puso enfermo'')
      ''mi hijo se puso enfermo'' =
   calcularUrgencia (analizar_sentimiento_basico ''mi hijo se puso enfermo'')
      ((categorizarQueja (cargarCaches filas_semilla) ''mi hijo se puso enfermo'')
         \<lparr>descripcion := Some ''mi hijo se puso enfermo''\<rparr>)
   \<and> urgencia_simple (analizar_sentimiento_basico ''el sabor era terrible, nunca vuelvo'')
      ''el sabor era terrible, nunca vuelvo'' =
   calcularUrgencia (analizar_sentimiento_basico ''el sabor era terrible, nunca vuelvo'')
      (categorizarQueja (cargarCaches filas_semilla) ''el sabor era terrible, nunca vuelvo'')
   \<and> urgencia_simple (analizar_sentimiento_basico ''el sabor era terrible, nunca vuelvo'')
      ''el sabor era terrible, nunca vuelvo'' =
   calcularUrgencia (analizar_sentimiento_basico ''el sabor era terrible, nunca vuelvo'')
      ((categorizarQueja (cargarCaches filas_semilla) ''el sabor era terrible, nunca vuelvo'')
         \<lparr>descripcion := Some ''el sabor era terrible, nunca vuelvo''\<rparr>)
   \<and> calcularUrgencia (analizar_sentimiento_basico ''el sabor era terrible, nunca vuelvo'')
      (categorizarQueja (cargarCaches filas_semilla) ''el sabor era terrible, nunca vuelvo'') = 4"
proof -
  let ?cache = "cargarCaches filas_semilla"
  let ?h = "''lo llevaron al hospital''"
  let ?e = "''mi hijo se puso enfermo''"
  let ?t = "''el sabor era terrible, nunca vuelvo''"
  have bono: "bono_categoria (c\<lparr>descripcion := x\<rparr>) = bono_categoria c" for c x
    by (simp add: bono_categoria_def)
  from urgencias_hospital
  have h: "\<not> palabra_urgente_ia (categorizarQueja ?cache ?h)"
      "palabra_urgente_ia ((categorizarQueja ?cache ?h)\<lparr>descripcion := Some ?h\<rparr>)"
      "\<not> palabra_urgente_simple ?h"
      "sentimiento (analizar_sentimiento_basico ?h) = neutral"
      "bono_categoria (categorizarQueja ?cache ?h) = 0"
    by (simp_all add: Let_def)
  from urgencias_enfermo
  have e: "\<not> palabra_urgente_ia (categorizarQueja ?cache ?e)"
      "palabra_urgente_ia ((categorizarQueja ?cache ?e)\<lparr>descripcion := Some ?e\<rparr>)"
      "palabra_urgente_simple ?e"
      "sentimiento (analizar_sentimiento_basico ?e) = neutral"
    by (simp_all add: Let_def)
  from urgencias_sabor
  have t: "\<not> palabra_urgente_ia (categorizarQueja ?cache ?t)"
      "\<not> palabra_urgente_ia ((categorizarQueja ?cache ?t)\<lparr>descripcion := Some ?t\<rparr>)"
      "\<not> palabra_urgente_simple ?t"
      "sentimiento (analizar_sentimiento_basico ?t) = muy_negativo"
      "bono_categoria (categorizarQueja ?cache ?t) = 1"
      "calcularUrgencia (analizar_sentimiento_basico ?t) (categorizarQueja ?cache ?t) = 4"
    by (simp_all add: Let_def)
  from urgencias_iguales_iff
         [of "analizar_sentimiento_basico ?h" ?h "categorizarQueja ?cache ?h"] h
  have h1: "urgencia_simple (analizar_sentimiento_basico ?h) ?h =
            calcularUrgencia (analizar_sentimiento_basico ?h) (categorizarQueja ?cache ?h)"
    by simp
  from urgencias_iguales_iff
         [of "analizar_sentimiento_basico ?h" ?h
             "(categorizarQueja ?cache ?h)\<lparr>descripcion := Some ?h\<rparr>"] h
  have h2: "urgencia_simple (analizar_sentimiento_basico ?h) ?h \<noteq>
            calcularUrgencia (analizar_sentimiento_basico ?h)
              ((categorizarQueja ?cache ?h)\<lparr>descripcion := Some ?h\<rparr>)"
    by simp
  from urgencias_iguales_iff
         [of "analizar_sentimiento_basico ?e" ?e "categorizarQueja ?cache ?e"] e
  have e1: "urgencia_simple (analizar_sentimiento_basico ?e) ?e \<noteq>
            calcularUrgencia (analizar_sentimiento_basico ?e) (categorizarQueja ?cache ?e)"
    by simp
  from urgencias_iguales_iff
         [of "analizar_sentimiento_basico ?e" ?e
             "(categorizarQueja ?cache ?e)\<lparr>descripcion := Some ?e\<rparr>"] e
  have e2: "urgencia_simple (analizar_sentimiento_basico ?e) ?e =
            calcularUrgencia (analizar_sentimiento_basico ?e)
              ((categorizarQueja ?cache ?e)\<lparr>descripcion := Some ?e\<rparr>)"
    by simp
  from urgencias_iguales_iff
         [of "analizar_sentimiento_basico ?t" ?t "categorizarQueja ?cache ?t"] t
  have t1: "urgencia_simple (analizar_sentimiento_basico ?t) ?t =
            calcularUrgencia (analizar_sentimiento_basico ?t) (categorizarQueja ?cache ?t)"
    by simp
  from urgencias_iguales_iff
         [of "analizar_sentimiento_basico ?t" ?t
             "(categorizarQueja ?cache ?t)\<lparr>descripcion := Some ?t\<rparr>"] t bono
  have t2: "urgencia_simple (analizar_sentimiento_basico ?t) ?t =
            calcularUrgencia (analizar_sentimiento_basico ?t)
              ((categorizarQueja ?cache ?t)\<lparr>descripcion := Some ?t\<rparr>)"
    by simp
  from h1 h2 e1 e2 t1 t2 t(6) show ?thesis by (intro conjI)
qed


section \<open>Branch resolution: the confidences of the candidates\<close>

lemma filtro_nivel:
  assumes "filtro s busqueda"
  shows "confianza_de s busqueda \<in> {1.00, 0.95, 0.85, 0.75, 0.65, 0.60}"
    and "razon_de s busqueda \<noteq> ''Coincidencia baja''"
  using assms by (auto simp add: filtro_def confianza_de_def razon_de_def)

lemma consulta_sucursales_nivel:
  assumes "r \<in> set (consulta_sucursales tabla busqueda limite)"
  shows "confianza r \<in> {1.00, 0.95, 0.85, 0.75, 0.65, 0.60} \<and> razon r \<noteq> ''Coincidencia baja''"
proof -
  from assms
  have "r \<in> set (map (fila_resultado busqueda) (filter (\<lambda>s. filtro s busqueda) tabla))"
    unfolding consulta_sucursales_def by (auto dest: in_set_takeD)
  then obtain s where s: "filtro s busqueda" and r: "r = fila_resultado busqueda s"
    by auto
  from filtro_nivel [OF s] r show ?thesis by (simp add: fila_resultado_def)
qed

lemma filas_devueltas_consulta:
  "set (filas_devueltas (buscar_sucursales_inteligente tabla busqueda limite)) \<subseteq>
   set (consulta_sucursales tabla busqueda limite)"
  by (simp add: filas_devueltas_def buscar_sucursales_inteligente_def)

lemma buscar_sucursales_inteligente_falla:
  "buscar_sucursales_inteligente tabla busqueda limite = Inl ErrorEstructura"
  by (simp add: buscar_sucursales_inteligente_def columnas_consulta_def columnas_declaradas_def)

text \<open>
  Claim C6. For every location hint, branch table and limit, every candidate returned by the
  branch resolver has a confidence among 1.00, 0.95, 0.85, 0.75, 0.65 and 0.60, and never
  the reason of the fallback: the fallback of 0.30 is unreachable, because every branch that
  passes the \<open>WHERE\<close> filter satisfies one of the six conditions of the \<open>CASE\<close>. This is
  stated of the rows that the function returns, of the rows of its \<open>SELECT\<close>, and of the
  filter itself. As the function is declared, \<open>RETURN QUERY\<close> raises on every call
  (\<open>buscar_sucursales_inteligente_falla\<close>), so the function returns no row at all; the
  rows of the \<open>SELECT\<close> are what it would return with matching column types.
\<close>

theorem buscar_sucursales_inteligente_niveles:
  "(\<forall>r \<in> set (filas_devueltas (buscar_sucursales_inteligente tabla busqueda limite)).
      confianza r \<in> {1.00, 0.95, 0.85, 0.75, 0.65, 0.60} \<and> razon r \<noteq> ''Coincidencia baja'')
   \<and> (\<forall>r \<in> set (consulta_sucursales tabla busqueda limite).
      confianza r \<in> {1.00, 0.95, 0.85, 0.75, 0.65, 0.60} \<and> razon r \<noteq> ''Coincidencia baja'')
   \<and> (\<forall>s. filtro s busqueda \<longrightarrow>
         id_exacto s busqueda \<or> nombre_exacto s busqueda \<or> ciudad_exacta s busqueda \<or>
         nombre_parcial s busqueda \<or> ciudad_parcial s busqueda \<or> estado_exacto s busqueda)"
proof -
  have a: "confianza r \<in> {1.00, 0.95, 0.85, 0.75, 0.65, 0.60} \<and> razon r \<noteq> ''Coincidencia baja''"
    if "r \<in> set (consulta_sucursales tabla busqueda limite)" for r
    using that by (rule consulta_sucursales_nivel)
  have b: "confianza r \<in> {1.00, 0.95, 0.85, 0.75, 0.65, 0.60} \<and> razon r \<noteq> ''Coincidencia baja''"
    if "r \<in> set (filas_devueltas (buscar_sucursales_inteligente tabla busqueda limite))" for r
    using that filas_devueltas_consulta [of tabla busqueda limite] a by blast
  have c: "id_exacto s busqueda \<or> nombre_exacto s busqueda \<or> ciudad_exacta s busqueda \<or>
         nombre_parcial s busqueda \<or> ciudad_parcial s busqueda \<or> estado_exacto s busqueda"
    if "filtro s busqueda" for s
    using that by (auto simp add: filtro_def)
  from a b c show ?thesis by blast
qed

text \<open>The hint \<open>nl\<close> on the seeded branches: the \<open>SELECT\<close> yields the first two
  branches of Nuevo Le\<dots>n, by their state code, with confidence 0.60; the function
  raises.\<close>

theorem buscar_sucursales_inteligente_niveles_witness:
  "map sucursal_id (consulta_sucursales sucursales_semilla ''nl'' 3) = [1, 2]
   \<and> map confianza (consulta_sucursales sucursales_semilla ''nl'' 3) = [0.60, 0.60]
   \<and> map razon (consulta_sucursales sucursales_semilla ''nl'' 3) = [''Estado'', ''Estado'']
   \<and> list_all (\<lambda>r. confianza r \<in> {1.00, 0.95, 0.85, 0.75, 0.65, 0.60} \<and>
                  razon r \<noteq> ''Coincidencia baja'')
        (consulta_sucursales sucursales_semilla ''nl'' 3)
   \<and> buscar_sucursales_inteligente sucursales_semilla ''nl'' 3 = Inl ErrorEstructura
   \<and> filtro (sucursales_semilla ! 0) ''nl''
   \<and> estado_exacto (sucursales_semilla ! 0) ''nl''"
proof -
  have ids: "map sucursal_id (consulta_sucursales sucursales_semilla ''nl'' 3) = [1, 2]"
    by code_simp
  have cs: "map confianza (consulta_sucursales sucursales_semilla ''nl'' 3) = [0.60, 0.60]"
    by code_simp
  have rs: "map razon (consulta_sucursales sucursales_semilla ''nl'' 3) =
            [''Estado'', ''Estado'']"
    by code_simp
  have f: "filtro (sucursales_semilla ! 0) ''nl''" by code_simp
  have e: "estado_exacto (sucursales_semilla ! 0) ''nl''" by code_simp
  have r: "buscar_sucursales_inteligente sucursales_semilla ''nl'' 3 = Inl ErrorEstructura"
    by (rule buscar_sucursales_inteligente_falla)
  from buscar_sucursales_inteligente_niveles [of sucursales_semilla "''nl''" 3]
  have "list_all (\<lambda>r. confianza r \<in> {1.00, 0.95, 0.85, 0.75, 0.65, 0.60} \<and>
                       razon r \<noteq> ''Coincidencia baja'')
          (consulta_sucursales sucursales_semilla ''nl'' 3)"
    by (simp add: list_all_iff)
  with ids cs rs f e r show ?thesis by (intro conjI)
qed


section \<open>Keyword extraction: the order of the result\<close>


lemma asignar_nuevo: "x \<notin> fst ` set fr \<Longrightarrow> asignar fr x v = fr @ [(x, v)]"
  by (induction fr x v rule: asignar.induct) auto

lemma asignar_map:
  "distinct ps \<Longrightarrow> x \<in> set ps \<Longrightarrow>
   asignar (map (\<lambda>w. (w, g w)) ps) x v = map (\<lambda>w. (w, if w = x then v else g w)) ps"
proof (induction ps)
  case Nil
  then show ?case by simp
next
  case (Cons p ps)
  show ?case
  proof (cases "p = x")
    case True
    with Cons.prems have "x \<notin> set ps" by simp
    then have "map (\<lambda>w. (w, if w = x then v else g w)) ps = map (\<lambda>w. (w, g w)) ps"
      by (intro map_cong) auto
    with True show ?thesis by simp
  next
    case False
    with Cons show ?thesis by simp
  qed
qed

lemma map_of_conteo:
  "map_of (map (\<lambda>w. (w, g w)) ps) x = (if x \<in> set ps then Some (g x) else None)"
  by (induction ps) auto

lemma contar_conteo:
  assumes "''constructor'' \<notin> set ws" and "''__proto__'' \<notin> set ws"
  shows "foldl contar_palabra [] ws =
         map (\<lambda>w. (w, Numero (count_list ws w))) (primeras ws)"
  using assms
proof (induction ws rule: rev_induct)
  case Nil
  then show ?case by (simp add: primeras_def)
next
  case (snoc x ws)
  then have IH: "foldl contar_palabra [] ws =
      map (\<lambda>w. (w, Numero (count_list ws w))) (primeras ws)"
    and x: "x \<noteq> ''constructor''" "x \<noteq> ''__proto__''"
    by auto
  show ?case
  proof (cases "x \<in> set ws")
    case True
    have "contar_palabra (map (\<lambda>w. (w, Numero (count_list ws w))) (primeras ws)) x =
        asignar (map (\<lambda>w. (w, Numero (count_list ws w))) (primeras ws)) x
          (Numero (count_list ws x + 1))"
      using x True by (simp add: contar_palabra_def map_of_conteo)
    also have "\<dots> = map (\<lambda>w. (w, if w = x then Numero (count_list ws x + 1)
                                    else Numero (count_list ws w))) (primeras ws)"
      using True by (intro asignar_map) simp_all
    also have "\<dots> = map (\<lambda>w. (w, Numero (count_list (ws @ [x]) w))) (primeras ws)"
      by (intro map_cong) auto
    also have "\<dots> = map (\<lambda>w. (w, Numero (count_list (ws @ [x]) w))) (primeras (ws @ [x]))"
      using True by (simp add: primeras_snoc del: count_list_append)
    finally show ?thesis by (simp add: IH del: count_list_append)
  next
    case False
    have c: "count_list (ws @ [x]) w = count_list ws w" if "w \<in> set (primeras ws)" for w
      using that False by auto
    have c1: "count_list (ws @ [x]) x = 1"
      using False by (simp add: count_list_0_iff)
    have "contar_palabra (map (\<lambda>w. (w, Numero (count_list ws w))) (primeras ws)) x =
        asignar (map (\<lambda>w. (w, Numero (count_list ws w))) (primeras ws)) x (Numero 1)"
      using x False by (simp add: contar_palabra_def map_of_conteo)
    also have "\<dots> = map (\<lambda>w. (w, Numero (count_list ws w))) (primeras ws) @ [(x, Numero 1)]"
      using False by (intro asignar_nuevo) (auto simp add: image_iff)
    also have "\<dots> = map (\<lambda>w. (w, Numero (count_list (ws @ [x]) w))) (primeras ws) @
        [(x, Numero (count_list (ws @ [x]) x))]"
      unfolding c1 using c by (simp cong: map_cong)
    also have "\<dots> = map (\<lambda>w. (w, Numero (count_list (ws @ [x]) w))) (primeras (ws @ [x]))"
      using False by (simp add: primeras_snoc del: count_list_append)
    finally show ?thesis by (simp add: IH del: count_list_append)
  qed
qed

lemma insertar_conteo:
  "insertar (w, Numero (g w)) (map (\<lambda>w. (w, Numero (g w))) ys) =
   map (\<lambda>w. (w, Numero (g w))) (insort_key (\<lambda>w. - int (g w)) w ys)"
  by (induction ys) (simp_all add: comparar_def)

lemma ordenar_conteo:
  "ordenar (map (\<lambda>w. (w, Numero (g w))) ps) =
   map (\<lambda>w. (w, Numero (g w))) (sort_key (\<lambda>w. - int (g w)) ps)"
  by (induction ps) (simp_all add: ordenar_def insertar_conteo)

lemma consistente_conteo: "comparador_consistente (map (\<lambda>w. (w, Numero (g w))) ps)"
  by (simp add: comparador_consistente_def list_all_iff)

lemma extraer_conteo:
  assumes "''constructor'' \<notin> set (palabras_de t)" and "''__proto__'' \<notin> set (palabras_de t)"
  shows "extraerPalabrasClave t = Some (take 5 (por_frecuencia (palabras_de t)))"
  unfolding extraerPalabrasClave_def Let_def contar_conteo [OF assms]
  by (simp add: consistente_conteo ordenar_conteo por_frecuencia_def take_map [symmetric] comp_def)

text \<open>
  Claim C9 says that the extractor orders the surviving words by descending frequency, ties
  by first occurrence, and that the top 2 keywords of
  \<open>el pollo pollo estaba horrible horrible horrible\<close> are \<open>horrible\<close> and \<open>pollo\<close>.
  \<open>extraerPalabrasClave\<close> has no parameter for the number of keywords: it keeps five,
  and returns three for this text. And a word that names a property of \<open>Object.prototype\<close>
  is not counted: in \<open>constructor pollo pollo\<close> the word \<open>constructor\<close>, which occurs
  once, comes before \<open>pollo\<close>, which occurs twice.
\<close>

theorem extraerPalabrasClave_ejemplos:
  "extraerPalabrasClave ''el pollo pollo estaba horrible horrible horrible'' =
     Some [''horrible'', ''pollo'', ''estaba'']
   \<and> extraerPalabrasClave ''el pollo pollo estaba horrible horrible horrible'' \<noteq>
     Some [''horrible'', ''pollo'']
   \<and> palabras_de ''constructor pollo pollo'' = [''constructor'', ''pollo'', ''pollo'']
   \<and> extraerPalabrasClave ''constructor pollo pollo'' = Some [''constructor'', ''pollo'']
   \<and> por_frecuencia (palabras_de ''constructor pollo pollo'') = [''pollo'', ''constructor'']"
  by code_simp

text \<open>
  Claim C9, amended. For a text none of whose surviving words is \<open>constructor\<close> or
  \<open>__proto__\<close>, the extractor returns the first five of the distinct surviving words
  ordered by descending frequency, words of equal frequency in the order of their first
  occurrence. For \<open>el pollo pollo estaba horrible horrible horrible\<close> these are
  \<open>horrible\<close>, \<open>pollo\<close>, \<open>estaba\<close>, of which the first two are \<open>horrible\<close> and \<open>pollo\<close>.
\<close>

theorem extraerPalabrasClave_orden:
  assumes "''constructor'' \<notin> set (palabras_de t)" and "''__proto__'' \<notin> set (palabras_de t)"
  shows "extraerPalabrasClave t = Some (take 5 (por_frecuencia (palabras_de t)))
    \<and> set (por_frecuencia (palabras_de t)) = set (palabras_de t)
    \<and> distinct (por_frecuencia (palabras_de t))
    \<and> sorted_wrt (\<lambda>a b. count_list (palabras_de t) a \<ge> count_list (palabras_de t) b)
        (por_frecuencia (palabras_de t))
    \<and> (\<forall>n. filter (\<lambda>w. count_list (palabras_de t) w = n) (por_frecuencia (palabras_de t)) =
            filter (\<lambda>w. count_list (palabras_de t) w = n) (primeras (palabras_de t)))"
proof -
  let ?ws = "palabras_de t"
  let ?k = "\<lambda>w. - int (count_list ?ws w)"
  have "sorted (map ?k (por_frecuencia ?ws))"
    by (simp add: por_frecuencia_def)
  then have s: "sorted_wrt (\<lambda>a b. count_list ?ws a \<ge> count_list ?ws b) (por_frecuencia ?ws)"
    by (simp add: sorted_map sorted_wrt_iff_nth_less)
  have st: "filter (\<lambda>w. count_list ?ws w = n) (por_frecuencia ?ws) =
            filter (\<lambda>w. count_list ?ws w = n) (primeras ?ws)" for n
    using sort_key_stable [of ?k "- int n" "primeras ?ws"]
    by (simp add: por_frecuencia_def)
  from extraer_conteo [OF assms] s st show ?thesis
    by (simp add: por_frecuencia_def)
qed


lemma ejemplo_palabras:
  "palabras_de ''el pollo pollo estaba horrible horrible horrible'' =
     [''pollo'', ''pollo'', ''estaba'', ''horrible'', ''horrible'', ''horrible'']"
  by code_simp

theorem extraerPalabrasClave_orden_witness:
  "extraerPalabrasClave ''el pollo pollo estaba horrible horrible horrible'' =
     Some [''horrible'', ''pollo'', ''estaba'']
   \<and> take 2 [''horrible'', ''pollo'', ''estaba''] = [''horrible'', ''pollo'']"
proof -
  let ?t = "''el pollo pollo estaba horrible horrible horrible''"
  have c: "''constructor'' \<notin> set (palabras_de ?t)" by (simp add: ejemplo_palabras)
  have p: "''__proto__'' \<notin> set (palabras_de ?t)" by (simp add: ejemplo_palabras)
  have o: "take 5 (por_frecuencia (palabras_de ?t)) = [''horrible'', ''pollo'', ''estaba'']"
    unfolding ejemplo_palabras by code_simp
  from extraerPalabrasClave_orden [OF c p] o show ?thesis by simp
qed


section \<open>The webhooks: failure and rollback\<close>































section \<open>The normalizer\<close>

lemma limpiarTexto_truthy:
  "truthy v \<Longrightarrow> \<exists>t. limpiarTexto v = Inr (Some t)"
  by (cases v) (simp_all add: limpiarTexto_def)

lemma limpiarTexto_total: "\<exists>r. limpiarTexto v = Inr r"
  by (cases v) (simp_all add: limpiarTexto_def)

lemma limpiarTexto_texto:
  "trim d \<noteq> [] \<Longrightarrow> limpiarTexto (JStr d) = Inr (Some (take 1000 (trim d)))"
  by (cases d) (auto simp add: limpiarTexto_def trim_def)

lemma normalizarDatos_descripcion_no_nula:
  assumes "normalizarDatos ahora date_parse d = Inr n"
  shows "n_descripcion n \<noteq> None"
proof -
  let ?v = "js_or (js_or (js_or (campo d ''descripcion'')
                                  (campo d (''Descripci'' @ [CHR 0xF3] @ ''n'')))
                           (campo d (''descripci'' @ [CHR 0xF3] @ ''n'')))
                    (JStr (''Sin descripci'' @ [CHR 0xF3] @ ''n''))"
  have "truthy ?v" by (simp add: js_or_def)
  then obtain t where "limpiarTexto ?v = Inr (Some t)"
    using limpiarTexto_truthy by blast
  with assms show ?thesis
    by (auto simp add: normalizarDatos_def split: sum.splits)
qed

lemma limpiarTelefono_texto:
  "(case v of JBool b \<Rightarrow> \<not> b | JNum n \<Rightarrow> n = 0 | _ \<Rightarrow> True) \<Longrightarrow>
   \<exists>r. limpiarTelefono v = Inr r"
  by (cases v) (simp_all add: limpiarTelefono_def Let_def)

lemma normalizarDatos_total:
  assumes "case js_or (campo d ''telefono'') (campo d ''Telefono'') of
             JBool b \<Rightarrow> \<not> b | JNum n \<Rightarrow> n = 0 | _ \<Rightarrow> True"
  shows "\<exists>n. normalizarDatos ahora date_parse d = Inr n"
proof -
  obtain t where "limpiarTelefono (js_or (campo d ''telefono'') (campo d ''Telefono'')) = Inr t"
    using limpiarTelefono_texto [OF assms] by blast
  moreover obtain a where "limpiarTexto (js_or (campo d ''nombre'') (campo d ''Nombre'')) = Inr a"
    using limpiarTexto_total by blast
  moreover obtain b where
    "limpiarTexto (js_or (js_or (js_or (campo d ''descripcion'')
                                  (campo d (''Descripci'' @ [CHR 0xF3] @ ''n'')))
                           (campo d (''descripci'' @ [CHR 0xF3] @ ''n'')))
                    (JStr (''Sin descripci'' @ [CHR 0xF3] @ ''n''))) = Inr b"
    using limpiarTexto_total by blast
  moreover obtain c where
    "limpiarTexto (js_or (campo d ''sucursal'') (campo d ''Sucursal'')) = Inr c"
    using limpiarTexto_total by blast
  ultimately show ?thesis by (simp add: normalizarDatos_def)
qed

text \<open>
  Claim C5 says that the text of a normalized complaint is never null and never empty.
  It is never null (\<open>normalizarDatos_descripcion_no_nula\<close>): a missing or empty
  description is replaced by the sentinel. But the sentinel is chosen before the text is
  trimmed, so a description of white space only is kept and trimmed to the empty string.
\<close>

theorem normalizarDatos_descripcion_vacia:
  "normalizarDatos 0 (\<lambda>t. None) [(''descripcion'', JStr ''   '')] =
     Inr \<lparr>n_nombre = None, n_telefono = None, n_descripcion = Some [], n_sucursal = None,
          n_fecha_creacion = 0\<rparr>"
  by code_simp

text \<open>
  Claim C7 says that \<open>normalizarDatos\<close> never raises, also on a phone value that is not a
  string. It returns whenever the phone value is a string or falsy
  (\<open>normalizarDatos_total\<close>); on a phone given as a JSON number, \<open>limpiarTelefono\<close>
  calls \<open>telefono.includes\<close> before it converts the value with \<open>toString\<close>, and a number
  has no such method: a \<open>TypeError\<close> is thrown.
\<close>

theorem normalizarDatos_telefono_numero:
  "normalizarDatos 0 (\<lambda>t. None)
     [(''nombre'', JStr ''Ana''), (''telefono'', JNum 5512345678),
      (''descripcion'', JStr ''todo mal'')] = Inl TypeError"
  by code_simp

end
